theory Spec2Isabelle
  imports Complex_Main
begin

section \<open>JavaScript strings\<close>

text \<open>
  A string of the model is the UTF-8 text of the JavaScript string, a list of bytes. The
  helpers below are the methods of \<open>String\<close> that the routes and the page call:
  \<open>startsWith\<close>, \<open>indexOf\<close>, \<open>includes\<close> (here \<open>js_includes\<close>), \<open>substring\<close> with one
  argument (which is \<^const>\<open>drop\<close>), \<open>split\<close> on a one-character separator, \<open>trim\<close> and
  \<open>toLowerCase\<close>. The patterns and separators they are called with are made of ASCII
  characters, each of which is one byte here and one code unit there, and no byte of a
  longer character is an ASCII one: they find and cut at the same places in both.
\<close>

definition nl :: char where
  "nl = CHR 0x0A"

definition startsWith :: "string \<Rightarrow> string \<Rightarrow> bool" where
  "startsWith s p \<longleftrightarrow> take (length p) s = p"

text \<open>The first place where the pattern occurs, if any.\<close>

fun first_index :: "string \<Rightarrow> string \<Rightarrow> nat option" where
  "first_index [] p = (if p = [] then Some 0 else None)"
| "first_index (c # cs) p =
     (if startsWith (c # cs) p then Some 0 else map_option Suc (first_index cs p))"

text \<open>\<open>indexOf\<close> answers -1 when the pattern does not occur.\<close>

definition indexOf :: "string \<Rightarrow> string \<Rightarrow> int" where
  "indexOf s p = (case first_index s p of None \<Rightarrow> - 1 | Some i \<Rightarrow> int i)"

definition js_includes :: "string \<Rightarrow> string \<Rightarrow> bool" where
  "js_includes s p \<longleftrightarrow> first_index s p \<noteq> None"

text \<open>\<open>"a\nb".split('\n')\<close> is \<open>["a", "b"]\<close>, and the empty string splits into \<open>[""]\<close>.\<close>

fun js_split :: "char \<Rightarrow> string \<Rightarrow> string list" where
  "js_split c [] = [[]]"
| "js_split c (x # xs) =
     (if x = c then [] # js_split c xs
      else (case js_split c xs of [] \<Rightarrow> [[x]] | l # ls \<Rightarrow> (x # l) # ls))"

text \<open>
  \<open>trim\<close> removes white space and line terminators from both ends. These are the 25
  characters U+0009 to U+000D, U+0020, U+00A0, U+1680, U+2000 to U+200A, U+2028,
  U+2029, U+202F, U+205F, U+3000 and U+FEFF, here in UTF-8. At the end of a text, the
  bytes of such a character are that character: its first byte begins a character.
\<close>

definition white_space :: "string list" where
  "white_space =
     [[CHR 0x09], [CHR 0x0A], [CHR 0x0B], [CHR 0x0C], [CHR 0x0D], [CHR 0x20],
      [CHR 0xC2, CHR 0xA0],
      [CHR 0xE1, CHR 0x9A, CHR 0x80],
      [CHR 0xE2, CHR 0x80, CHR 0x80], [CHR 0xE2, CHR 0x80, CHR 0x81],
      [CHR 0xE2, CHR 0x80, CHR 0x82], [CHR 0xE2, CHR 0x80, CHR 0x83],
      [CHR 0xE2, CHR 0x80, CHR 0x84], [CHR 0xE2, CHR 0x80, CHR 0x85],
      [CHR 0xE2, CHR 0x80, CHR 0x86], [CHR 0xE2, CHR 0x80, CHR 0x87],
      [CHR 0xE2, CHR 0x80, CHR 0x88], [CHR 0xE2, CHR 0x80, CHR 0x89],
      [CHR 0xE2, CHR 0x80, CHR 0x8A],
      [CHR 0xE2, CHR 0x80, CHR 0xA8], [CHR 0xE2, CHR 0x80, CHR 0xA9],
      [CHR 0xE2, CHR 0x80, CHR 0xAF],
      [CHR 0xE2, CHR 0x81, CHR 0x9F],
      [CHR 0xE3, CHR 0x80, CHR 0x80],
      [CHR 0xEF, CHR 0xBB, CHR 0xBF]]"

text \<open>Takes away, from the start of a text, the words of a list as long as one is there.\<close>

function strip_start :: "string list \<Rightarrow> string \<Rightarrow> string" where
  "strip_start ws s =
     (case find (\<lambda>w. w \<noteq> [] \<and> startsWith s w) ws of
        None \<Rightarrow> s
      | Some w \<Rightarrow> strip_start ws (drop (length w) s))"
  by pat_completeness auto
termination
proof (relation "measure (\<lambda>(ws, s). length s)")
  show "wf (measure (\<lambda>(ws, s). length s))" by simp
next
  fix ws :: "string list" and s w :: string
  assume "find (\<lambda>w. w \<noteq> [] \<and> startsWith s w) ws = Some w"
  then have "w \<noteq> []" and "take (length w) s = w"
    by (auto simp: find_Some_iff startsWith_def)
  then have "s \<noteq> []" by auto
  with \<open>w \<noteq> []\<close> show "((ws, drop (length w) s), (ws, s)) \<in> measure (\<lambda>(ws, s). length s)"
    by simp
qed

declare strip_start.simps [simp del]

definition trimStart :: "string \<Rightarrow> string" where
  "trimStart s = strip_start white_space s"

definition trimEnd :: "string \<Rightarrow> string" where
  "trimEnd s = rev (strip_start (map rev white_space) (rev s))"

definition trim :: "string \<Rightarrow> string" where
  "trim s = trimEnd (trimStart s)"

text \<open>
  \<open>toLowerCase\<close>, for the letters A to Z; other characters are kept. The routes call it
  on the host name that \<open>new URL\<close> gives, which is made of ASCII characters.
\<close>

definition lower_char :: "char \<Rightarrow> char" where
  "lower_char c =
     (case map_of (zip ''ABCDEFGHIJKLMNOPQRSTUVWXYZ'' ''abcdefghijklmnopqrstuvwxyz'') c of
        None \<Rightarrow> c
      | Some d \<Rightarrow> d)"

definition toLowerCase :: "string \<Rightarrow> string" where
  "toLowerCase s = map lower_char s"

text \<open>Template literals print a number in decimal: \<open>`${code}`\<close>.\<close>

definition digit_char :: "nat \<Rightarrow> char" where
  "digit_char n = ''0123456789'' ! n"

function show_nat :: "nat \<Rightarrow> string" where
  "show_nat n = (if n < 10 then [digit_char n] else show_nat (n div 10) @ [digit_char (n mod 10)])"
  by pat_completeness auto
termination
  by (relation "measure id") auto

declare show_nat.simps [simp del]

definition show_int :: "int \<Rightarrow> string" where
  "show_int i = (if i < 0 then CHR ''-'' # show_nat (nat (- i)) else show_nat (nat i))"

text \<open>
  The regular expression \<open>/(\{[\s\S]*\})/\<close> of the supervisors: the star is greedy and
  matches every character, so the match runs from the first opening brace to the last
  closing brace after it, and there is no match when no closing brace follows the first
  opening one.
\<close>

definition match_braces :: "string \<Rightarrow> string option" where
  "match_braces s =
     (let m = rev (dropWhile (\<lambda>c. c \<noteq> CHR ''}'') (rev (dropWhile (\<lambda>c. c \<noteq> CHR ''{'') s)))
      in if length m < 2 then None else Some m)"

text \<open>
  The regular expression \<open>/\.[^/.]+$/\<close> of the YouTube download, replaced by the empty
  string: a last extension (a dot followed by one or more characters other than dot and
  slash, up to the end) is cut off.
\<close>

definition strip_extension :: "string \<Rightarrow> string" where
  "strip_extension s =
     (let r = rev s;
          ext = takeWhile (\<lambda>c. c \<noteq> CHR ''.'' \<and> c \<noteq> CHR ''/'') r;
          rest = drop (length ext) r
      in if ext \<noteq> [] \<and> startsWith rest ''.'' then rev (drop 1 rest) else s)"

section \<open>JSON values\<close>

text \<open>
  What \<open>JSON.parse\<close> returns. An object keeps its members in the order of the text; a
  member written twice keeps the later value, which is what \<^term>\<open>map_of (rev kvs)\<close> reads.
  Reading a property of \<open>null\<close> throws a \<open>TypeError\<close>; of any other value that is not
  an object, the properties read here are \<open>undefined\<close>, which is \<open>None\<close>.
\<close>

datatype json =
    JNull
  | JBool bool
  | JNum real
  | JStr string
  | JArr "json list"
  | JObj "(string \<times> json) list"

fun field :: "json \<Rightarrow> string \<Rightarrow> json option" where
  "field (JObj kvs) k = map_of (rev kvs) k"
| "field _ k = None"

text \<open>
  \<open>JSON.parse\<close> itself belongs to the platform. The routes and the page take it as a
  parameter of type \<open>string \<Rightarrow> string + json\<close>: \<open>Inl\<close> carries the message of the
  \<open>SyntaxError\<close> it throws. The results below hold for every such function.

  \<open>json_parse\<close> is one such function, used to run the model on concrete texts. It reads
  the fragment of JSON made of objects, arrays, strings without escapes, integers and
  the three literals; a text outside the fragment (a fraction, an exponent, an escape)
  is refused here although the platform reads it.
\<close>

definition is_json_ws :: "char \<Rightarrow> bool" where
  "is_json_ws c \<longleftrightarrow> c \<in> set [CHR '' '', CHR 0x09, CHR 0x0A, CHR 0x0D]"

definition skip_ws :: "string \<Rightarrow> string" where
  "skip_ws s = dropWhile is_json_ws s"

definition is_digit :: "char \<Rightarrow> bool" where
  "is_digit c \<longleftrightarrow> c \<in> set ''0123456789''"

definition digits_val :: "string \<Rightarrow> nat" where
  "digits_val ds = foldl (\<lambda>a c. 10 * a + (of_char c - 48)) 0 ds"

definition parse_number :: "string \<Rightarrow> (json \<times> string) option" where
  "parse_number s =
     (let neg = startsWith s ''-'';
          s1 = (if neg then drop 1 s else s);
          ds = takeWhile is_digit s1;
          r = dropWhile is_digit s1
      in if ds = [] \<or> (1 < length ds \<and> startsWith ds ''0'')
            \<or> startsWith r ''.'' \<or> startsWith r ''e'' \<or> startsWith r ''E''
         then None
         else Some (JNum (if neg then - real (digits_val ds) else real (digits_val ds)), r))"

text \<open>The text of a string after its opening quote, up to the closing quote.\<close>

fun parse_string :: "string \<Rightarrow> (string \<times> string) option" where
  "parse_string [] = None"
| "parse_string (c # cs) =
     (if c = CHR 0x22 then Some ([], cs)
      else if c = CHR 0x5C \<or> (of_char c :: nat) < 32 then None
      else (case parse_string cs of None \<Rightarrow> None | Some (t, r) \<Rightarrow> Some (c # t, r)))"

fun parse_value :: "nat \<Rightarrow> string \<Rightarrow> (json \<times> string) option"
  and parse_elements :: "nat \<Rightarrow> string \<Rightarrow> (json list \<times> string) option"
  and parse_members :: "nat \<Rightarrow> string \<Rightarrow> ((string \<times> json) list \<times> string) option"
where
  "parse_value 0 s = None"
| "parse_value (Suc n) s =
     (case skip_ws s of
        [] \<Rightarrow> None
      | c # cs \<Rightarrow>
          if c = CHR ''{'' then
            (if startsWith (skip_ws cs) ''}'' then Some (JObj [], drop 1 (skip_ws cs))
             else (case parse_members n cs of None \<Rightarrow> None | Some (kvs, r) \<Rightarrow> Some (JObj kvs, r)))
          else if c = CHR ''['' then
            (if startsWith (skip_ws cs) '']'' then Some (JArr [], drop 1 (skip_ws cs))
             else (case parse_elements n cs of None \<Rightarrow> None | Some (vs, r) \<Rightarrow> Some (JArr vs, r)))
          else if c = CHR 0x22 then
            (case parse_string cs of None \<Rightarrow> None | Some (t, r) \<Rightarrow> Some (JStr t, r))
          else if startsWith (c # cs) ''true'' then Some (JBool True, drop 4 (c # cs))
          else if startsWith (c # cs) ''false'' then Some (JBool False, drop 5 (c # cs))
          else if startsWith (c # cs) ''null'' then Some (JNull, drop 4 (c # cs))
          else parse_number (c # cs))"
| "parse_elements 0 s = None"
| "parse_elements (Suc n) s =
     (case parse_value n s of
        None \<Rightarrow> None
      | Some (v, r) \<Rightarrow>
          if startsWith (skip_ws r) '','' then
            (case parse_elements n (drop 1 (skip_ws r)) of
               None \<Rightarrow> None
             | Some (vs, r') \<Rightarrow> Some (v # vs, r'))
          else if startsWith (skip_ws r) '']'' then Some ([v], drop 1 (skip_ws r))
          else None)"
| "parse_members 0 s = None"
| "parse_members (Suc n) s =
     (if startsWith (skip_ws s) [CHR 0x22] then
        (case parse_string (drop 1 (skip_ws s)) of
           None \<Rightarrow> None
         | Some (k, r) \<Rightarrow>
             if startsWith (skip_ws r) '':'' then
               (case parse_value n (drop 1 (skip_ws r)) of
                  None \<Rightarrow> None
                | Some (v, r') \<Rightarrow>
                    if startsWith (skip_ws r') '','' then
                      (case parse_members n (drop 1 (skip_ws r')) of
                         None \<Rightarrow> None
                       | Some (kvs, r'') \<Rightarrow> Some ((k, v) # kvs, r''))
                    else if startsWith (skip_ws r') ''}'' then Some ([(k, v)], drop 1 (skip_ws r'))
                    else None)
             else None)
      else None)"

definition json_parse :: "string \<Rightarrow> string + json" where
  "json_parse s =
     (case parse_value (Suc (length s)) s of
        None \<Rightarrow> Inl ''Unexpected token or end of JSON input''
      | Some (v, r) \<Rightarrow>
          if skip_ws r = [] then Inr v else Inl ''Unexpected non-whitespace character after JSON'')"

section \<open>The worker process\<close>

text \<open>
  A run of the worker, as Node reports it: the events of the child process, in the
  order in which their handlers run. \<open>Data\<close> is a \<open>data\<close> event of one of the two output
  streams, with the text that \<open>data.toString()\<close> makes of the chunk; \<open>Close\<close> is the
  \<open>close\<close> event with the exit code (\<open>null\<close>, here \<open>None\<close>, when a signal ended the
  process); \<open>ProcError\<close> is the \<open>error\<close> event with the message of its error. Each
  supervisor registers one handler for each kind of event, and no handler looks at what
  another one did. A worker that was spawned and has exited gives \<open>data\<close> events and
  then one \<open>close\<close> event; a spawn that failed gives an \<open>error\<close> event and then a \<open>close\<close>
  event with a negative code.
\<close>

datatype data_event = Stdout string | Stderr string

datatype event = Data data_event | Close "int option" | ProcError string

type_synonym worker_run = "event list"

text \<open>
  All that was written on the primary stream, all that was written on the diagnostic
  one, and the chunks of the diagnostic one.
\<close>

definition stdout_text :: "data_event list \<Rightarrow> string" where
  "stdout_text evs = concat (map (\<lambda>ev. case ev of Stdout c \<Rightarrow> c | Stderr c \<Rightarrow> []) evs)"

definition stderr_text :: "data_event list \<Rightarrow> string" where
  "stderr_text evs = concat (map (\<lambda>ev. case ev of Stdout c \<Rightarrow> [] | Stderr c \<Rightarrow> c) evs)"

definition stderr_chunks :: "data_event list \<Rightarrow> string list" where
  "stderr_chunks evs = concat (map (\<lambda>ev. case ev of Stdout c \<Rightarrow> [] | Stderr c \<Rightarrow> [c]) evs)"


definition show_code :: "int option \<Rightarrow> string" where
  "show_code code = (case code of None \<Rightarrow> ''null'' | Some n \<Rightarrow> show_int n)"

definition PROGRESS :: string where
  "PROGRESS = ''PROGRESS:''"

text \<open>What the platform and the machine give a request.\<close>

datatype fetch_result =
    FetchError string
  | FetchResponse bool nat string string

datatype exec_result =
    ExecError string
  | ExecOk "string option"

record url =
  hostname :: string
  pathname :: string
  searchParams :: "string list"

record env =
  jsonParse :: "string \<Rightarrow> string + json"
  uuidv4 :: string
  cwd :: string
  scriptExists :: bool
  writeError :: "string option"
  worker :: worker_run
  newURL :: "string \<Rightarrow> url option"
  fetch :: "string \<Rightarrow> fetch_result"
  execAsync :: "string \<Rightarrow> exec_result"

text \<open>
  The state of the server that a request changes: the files of the temporary directory
  (path to content) and the artifact paths the worker was spawned on.
\<close>

record world =
  files :: "string \<rightharpoonup> string"
  spawned :: "string list"

definition writeFileSync :: "string \<Rightarrow> string \<Rightarrow> world \<Rightarrow> world" where
  "writeFileSync p b w = w\<lparr>files := (files w)(p \<mapsto> b)\<rparr>"

text \<open>
  \<open>fs.unlinkSync\<close> throws when the file is missing; every call of it sits in a
  \<open>try\<close> whose \<open>catch\<close> only logs, so that the state is then unchanged.
\<close>

definition cleanupFile :: "string \<Rightarrow> world \<Rightarrow> world" where
  "cleanupFile p w = w\<lparr>files := (files w)(p := None)\<rparr>"

definition renameSync :: "string \<Rightarrow> string \<Rightarrow> world \<Rightarrow> world" where
  "renameSync a b w = w\<lparr>files := (files w)(b := files w a, a := None)\<rparr>"

definition spawn :: "string \<Rightarrow> world \<Rightarrow> world" where
  "spawn p w = w\<lparr>spawned := spawned w @ [p]\<rparr>"

text \<open>
  The stream of a response: the payloads of the frames put in its queue, each frame
  being the text \<open>data: \<close>, \<open>JSON.stringify\<close> of the payload and two line feeds, and
  whether the controller was closed. The consumer is taken to stay connected: then
  \<open>controller.enqueue\<close> throws a \<open>TypeError\<close> exactly when the controller was closed
  before, which the callbacks below test before they use \<open>enqueue\<close>.
\<close>

record stream =
  frames :: "json list"
  closed :: bool

definition new_stream :: stream where
  "new_stream = \<lparr>frames = [], closed = False\<rparr>"

definition enqueue :: "json \<Rightarrow> stream \<Rightarrow> stream" where
  "enqueue j s = s\<lparr>frames := frames s @ [j]\<rparr>"

definition close :: "stream \<Rightarrow> stream" where
  "close s = s\<lparr>closed := True\<rparr>"

text \<open>
  What a request is answered with. \<open>Pending\<close> stands for no answer: the route awaits a
  promise that is never settled.
\<close>

datatype response =
    JsonResponse nat json
  | StreamResponse stream
  | Pending

section \<open>The upload route\<close>

text \<open>File \<open>src/app/api/transcribe/local/route.ts\<close>.\<close>

datatype callback = OnProgress json | OnComplete json | OnError string

text \<open>The body of the loop over the lines of a chunk of the diagnostic stream.\<close>

definition progress_line_local :: "(string \<Rightarrow> string + json) \<Rightarrow> string \<Rightarrow> callback list" where
  "progress_line_local parse line =
     (if startsWith line PROGRESS then
        (case parse (drop (length PROGRESS) line) of
           Inr progressData \<Rightarrow> [OnProgress progressData]
         | Inl e \<Rightarrow> [])
      else [])"

definition stderr_data_local :: "(string \<Rightarrow> string + json) \<Rightarrow> string \<Rightarrow> callback list" where
  "stderr_data_local parse chunk = concat (map (progress_line_local parse) (js_split nl chunk))"

text \<open>
  The callbacks that a supervisor is given act on a state of the caller and may throw:
  \<open>callbacks c st\<close> is the state after the call \<open>c\<close>, and \<open>None\<close> when the call throws
  (with the state as it was).
\<close>

type_synonym 'st callbacks = "callback \<Rightarrow> 'st \<Rightarrow> 'st option"

text \<open>
  The two buffers of a supervisor; the state of \<open>runPythonScriptWithProgress\<close> of this
  route, with the calls it has made so far and the state of its caller.
\<close>

record buffers =
  stdoutData :: string
  stderrData :: string

record 'st supervisor = buffers +
  calls :: "callback list"
  client :: 'st

definition throws :: "'st callbacks \<Rightarrow> 'st supervisor \<Rightarrow> callback \<Rightarrow> bool" where
  "throws callbacks s c \<longleftrightarrow> callbacks c (client s) = None"

definition call :: "'st callbacks \<Rightarrow> 'st supervisor \<Rightarrow> callback \<Rightarrow> 'st supervisor" where
  "call callbacks s c =
     (case callbacks c (client s) of
        None \<Rightarrow> s\<lparr>calls := calls s @ [c]\<rparr>
      | Some st \<Rightarrow> s\<lparr>calls := calls s @ [c], client := st\<rparr>)"

text \<open>
  A call made inside the \<open>try\<close> of the \<open>close\<close> handler: when it throws, the \<open>catch\<close>
  calls \<open>onError\<close>.
\<close>

definition call_in_try :: "'st callbacks \<Rightarrow> 'st supervisor \<Rightarrow> callback \<Rightarrow> 'st supervisor" where
  "call_in_try callbacks s c =
     (if throws callbacks s c
      then call callbacks (call callbacks s c) (OnError ''Failed to parse transcription result'')
      else call callbacks s c)"

text \<open>
  The handlers of the three kinds of event. Each call of \<open>onProgress\<close> sits in a \<open>try\<close>
  of its own, whose \<open>catch\<close> only logs. An exception that leaves a handler is not followed
  here: the events that follow are handled as usual.
\<close>

definition on_close_local ::
  "(string \<Rightarrow> string + json) \<Rightarrow> 'st callbacks \<Rightarrow> 'st supervisor \<Rightarrow> int option \<Rightarrow> 'st supervisor" where
  "on_close_local parse callbacks s code =
     (if code \<noteq> Some 0 then
        call callbacks s
          (OnError (''Python script exited with code '' @ show_code code @ '': '' @ stderrData s))
      else
        (case match_braces (stdoutData s) of
           Some jsonMatch \<Rightarrow>
             (case parse jsonMatch of
                Inr result \<Rightarrow> call_in_try callbacks s (OnComplete result)
              | Inl e \<Rightarrow> call callbacks s (OnError ''Failed to parse transcription result''))
         | None \<Rightarrow>
             call_in_try callbacks s
               (OnError ''Invalid response format from transcription service'')))"

fun on_event_local ::
  "(string \<Rightarrow> string + json) \<Rightarrow> 'st callbacks \<Rightarrow> 'st supervisor \<Rightarrow> event \<Rightarrow> 'st supervisor" where
  "on_event_local parse callbacks s (Data (Stdout chunk)) = s\<lparr>stdoutData := stdoutData s @ chunk\<rparr>"
| "on_event_local parse callbacks s (Data (Stderr chunk)) =
     foldl (call callbacks) (s\<lparr>stderrData := stderrData s @ chunk\<rparr>) (stderr_data_local parse chunk)"
| "on_event_local parse callbacks s (Close code) = on_close_local parse callbacks s code"
| "on_event_local parse callbacks s (ProcError message) =
     call callbacks s (OnError (''Failed to start transcription process: '' @ message))"

text \<open>
  \<open>runPythonScriptWithProgress\<close> of this route, given the callbacks and the state of the
  caller: the state of the supervisor after the events of the run.
\<close>

definition runPythonScriptWithProgress_local ::
  "(string \<Rightarrow> string + json) \<Rightarrow> 'st callbacks \<Rightarrow> worker_run \<Rightarrow> 'st \<Rightarrow> 'st supervisor" where
  "runPythonScriptWithProgress_local parse callbacks run st =
     foldl (on_event_local parse callbacks)
       \<lparr>stdoutData = [], stderrData = [], calls = [], client = st\<rparr> run"

text \<open>
  A promise is settled by the first call of \<open>resolve\<close> or \<open>reject\<close>; later calls do
  nothing. \<open>Inl\<close> is a rejection, with the message of its error.
\<close>

record promise = buffers +
  settled :: "(string + json) option"

definition settle :: "string + json \<Rightarrow> 'a promise_scheme \<Rightarrow> 'a promise_scheme" where
  "settle x s = (case settled s of None \<Rightarrow> s\<lparr>settled := Some x\<rparr> | Some y \<Rightarrow> s)"

text \<open>\<open>runPythonScript\<close>, the promise of the route's plain answer.\<close>

fun on_event_plain :: "(string \<Rightarrow> string + json) \<Rightarrow> promise \<Rightarrow> event \<Rightarrow> promise" where
  "on_event_plain parse s (Data (Stdout chunk)) = s\<lparr>stdoutData := stdoutData s @ chunk\<rparr>"
| "on_event_plain parse s (Data (Stderr chunk)) = s\<lparr>stderrData := stderrData s @ chunk\<rparr>"
| "on_event_plain parse s (Close code) =
     (if code \<noteq> Some 0 then
        settle (Inl (''Python script exited with code '' @ show_code code @ '': '' @ stderrData s)) s
      else
        (case match_braces (stdoutData s) of
           Some jsonStr \<Rightarrow> settle (parse jsonStr) s
         | None \<Rightarrow> settle (Inr (JObj [(''text'', JStr (trim (stdoutData s)))])) s))"
| "on_event_plain parse s (ProcError message) = settle (Inl message) s"

definition runPythonScript :: "(string \<Rightarrow> string + json) \<Rightarrow> worker_run \<Rightarrow> (string + json) option" where
  "runPythonScript parse run =
     settled (foldl (on_event_plain parse) \<lparr>stdoutData = [], stderrData = [], settled = None\<rparr> run)"

text \<open>
  The three callbacks that \<open>handleProgressStreamRequest\<close> gives the supervisor. Each
  begins with \<open>controller.enqueue\<close>.
\<close>

fun relay :: "string \<Rightarrow> (stream \<times> world) callbacks" where
  "relay filePath (OnProgress progress) (s, w) =
     (if closed s then None else Some (enqueue progress s, w))"
| "relay filePath (OnComplete result) (s, w) =
     (if closed s then None
      else Some (close (enqueue (JObj [(''type'', JStr ''complete''), (''result'', result)]) s),
                 cleanupFile filePath w))"
| "relay filePath (OnError error) (s, w) =
     (if closed s then None
      else Some (close (enqueue (JObj [(''type'', JStr ''error''), (''error'', JStr error)]) s),
                 cleanupFile filePath w))"

text \<open>
  A property of the supervisor of this route with the callbacks of
  \<open>handleProgressStreamRequest\<close>, used in the proofs below, where \<open>Q\<close> holds of the
  payloads that came from the worker. While the stream is open it holds only payloads
  of which \<open>Q\<close> holds, and the last call was not \<open>onComplete\<close>. Once it is closed it has a
  last frame, \<open>Q\<close> holds of the payloads before that one, and if the last call was
  \<open>onComplete\<close> then the last frame is the \<open>complete\<close> frame of its result.
\<close>

definition relayed :: "(json \<Rightarrow> bool) \<Rightarrow> (stream \<times> world) supervisor \<Rightarrow> bool" where
  "relayed Q s \<longleftrightarrow>
     (if closed (fst (client s)) then
        frames (fst (client s)) \<noteq> []
        \<and> (\<forall>f \<in> set (butlast (frames (fst (client s)))). Q f)
        \<and> (\<forall>cs result. calls s = cs @ [OnComplete result] \<longrightarrow>
              last (frames (fst (client s))) = JObj [(''type'', JStr ''complete''), (''result'', result)])
      else
        (\<forall>f \<in> set (frames (fst (client s))). Q f)
        \<and> (\<forall>cs result. calls s \<noteq> cs @ [OnComplete result]))"

definition handleProgressStreamRequest :: "env \<Rightarrow> string \<Rightarrow> world \<Rightarrow> response \<times> world" where
  "handleProgressStreamRequest e filePath w =
     (let (s, w') = client (runPythonScriptWithProgress_local (jsonParse e) (relay filePath)
                              (worker e) (new_stream, spawn filePath w))
      in (StreamResponse s, w'))"

definition handleRegularRequest :: "env \<Rightarrow> string \<Rightarrow> world \<Rightarrow> response \<times> world" where
  "handleRegularRequest e filePath w =
     (if \<not> scriptExists e then
        (JsonResponse 500 (JObj [(''error'', JStr ''Server configuration error: Script not found'')]), w)
      else
        (case runPythonScript (jsonParse e) (worker e) of
           None \<Rightarrow> (Pending, spawn filePath w)
         | Some (Inr result) \<Rightarrow> (JsonResponse 200 result, cleanupFile filePath (spawn filePath w))
         | Some (Inl message) \<Rightarrow>
             (JsonResponse 500 (JObj [(''error'', JStr (''Transcription failed: '' @ message))]),
              cleanupFile filePath (spawn filePath w))))"

text \<open>
  A request: what \<open>request.formData()\<close> gives (\<open>Inl\<close> when it throws, with the
  message; the fields are strings or files), the member \<open>audioUrl\<close> of what
  \<open>request.json()\<close> gives (again \<open>Inl\<close> when it throws, and \<open>None\<close> when the body has
  no such member), and the \<open>accept\<close> header.
\<close>

datatype form_value = FormString string | FormBlob string

record request =
  formData :: "string + (string \<rightharpoonup> form_value)"
  audioUrl :: "string + string option"
  accept :: "string option"

definition wants_event_stream :: "string option \<Rightarrow> bool" where
  "wants_event_stream acceptHeader =
     (case acceptHeader of None \<Rightarrow> False | Some h \<Rightarrow> js_includes h ''text/event-stream'')"

definition server_error_local :: "string \<Rightarrow> response" where
  "server_error_local message =
     JsonResponse 500 (JObj [(''error'', JStr (''Server error processing transcription: '' @ message))])"

definition no_audio :: response where
  "no_audio = JsonResponse 400 (JObj [(''error'', JStr ''No audio file provided'')])"

text \<open>\<open>path.join(TEMP_DIR, `${fileId}.mp3`)\<close>, where \<open>TEMP_DIR\<close> is \<open>tmp\<close> under the working directory.\<close>

definition artifact_path :: "env \<Rightarrow> string" where
  "artifact_path e = cwd e @ ''/tmp/'' @ uuidv4 e @ ''.mp3''"

definition POST_local :: "env \<Rightarrow> request \<Rightarrow> world \<Rightarrow> response \<times> world" where
  "POST_local e request w =
     (let filePath = artifact_path e in
      case formData request of
        Inl message \<Rightarrow> (server_error_local message, w)
      | Inr form \<Rightarrow>
          (case form ''audio'' of
             None \<Rightarrow> (no_audio, w)
           | Some (FormString s) \<Rightarrow> (no_audio, w)
           | Some (FormBlob buffer) \<Rightarrow>
               (case writeError e of
                  Some message \<Rightarrow> (server_error_local message, w)
                | None \<Rightarrow>
                    if wants_event_stream (accept request)
                    then handleProgressStreamRequest e filePath (writeFileSync filePath buffer w)
                    else handleRegularRequest e filePath (writeFileSync filePath buffer w))))"

section \<open>The URL route\<close>

text \<open>File \<open>src/app/api/transcribe-url/route.ts\<close>.\<close>

definition youtubeHosts :: "string list" where
  "youtubeHosts = [''youtube.com'', ''www.youtube.com'', ''m.youtube.com'', ''youtu.be'']"

definition hasVideoPath :: "url \<Rightarrow> bool" where
  "hasVideoPath urlObj \<longleftrightarrow>
     js_includes (pathname urlObj) ''/watch'' \<or> js_includes (pathname urlObj) ''/shorts/'' \<or>
     js_includes (pathname urlObj) ''/embed/'' \<or> ''v'' \<in> set (searchParams urlObj)"

definition isYouTubeURL :: "env \<Rightarrow> string \<Rightarrow> bool" where
  "isYouTubeURL e u =
     (case newURL e u of
        None \<Rightarrow> False
      | Some urlObj \<Rightarrow>
          (let host = toLowerCase (hostname urlObj);
               isYouTubeDomain = host \<in> set youtubeHosts
           in if js_includes host ''youtube.com'' then isYouTubeDomain \<and> hasVideoPath urlObj
              else if host = ''youtu.be'' then 1 < length (pathname urlObj)
              else False))"

text \<open>The \<open>catch\<close> of \<open>downloadYouTubeAudio\<close>: the message of the error it throws again.\<close>

definition youtube_failure :: "string \<Rightarrow> string" where
  "youtube_failure message =
     (if js_includes message ''timeout'' then
        ''Download timed out - the video might be too long or your connection too slow''
      else if js_includes message ''not available'' then
        ''This YouTube video is not available for download (might be private or deleted)''
      else ''YouTube download failed: '' @ message)"

definition ytdlp_command :: "env \<Rightarrow> string \<Rightarrow> string \<Rightarrow> string" where
  "ytdlp_command e pathWithoutExtension u =
     [CHR 0x22] @ cwd e @ ''/.venv/bin/yt-dlp'' @ [CHR 0x22] @ '' -x --audio-format mp3 -o ''
       @ [CHR 0x22] @ pathWithoutExtension @ ''.%(ext)s'' @ [CHR 0x22] @ '' ''
       @ [CHR 0x22] @ u @ [CHR 0x22]"

text \<open>
  The tool either fails (\<open>ExecError\<close>) or ends well, having left an audio file at the
  expected path (\<open>ExecOk (Some audio)\<close>) or not (\<open>ExecOk None\<close>).
\<close>

definition downloadYouTubeAudio :: "env \<Rightarrow> string \<Rightarrow> string \<Rightarrow> world \<Rightarrow> string + world" where
  "downloadYouTubeAudio e u outputPath w =
     (let pathWithoutExtension = strip_extension outputPath;
          expectedFile = pathWithoutExtension @ ''.mp3''
      in case execAsync e (ytdlp_command e pathWithoutExtension u) of
           ExecError message \<Rightarrow> Inl (youtube_failure message)
         | ExecOk produced \<Rightarrow>
             (let w1 = (case produced of None \<Rightarrow> w | Some audio \<Rightarrow> writeFileSync expectedFile audio w)
              in if files w1 expectedFile = None then
                   Inl (youtube_failure (''Expected audio file was not created at: '' @ expectedFile))
                 else if expectedFile \<noteq> outputPath then Inr (renameSync expectedFile outputPath w1)
                 else Inr w1))"

definition download_failure :: "string \<Rightarrow> string" where
  "download_failure message = ''Failed to download audio from URL: '' @ message"

definition downloadAudioFromUrl :: "env \<Rightarrow> string \<Rightarrow> string \<Rightarrow> world \<Rightarrow> string + world" where
  "downloadAudioFromUrl e u outputPath w =
     (case fetch e u of
        FetchError message \<Rightarrow> Inl (download_failure message)
      | FetchResponse ok status statusText body \<Rightarrow>
          if \<not> ok then
            Inl (download_failure (''Failed to fetch audio: '' @ show_nat status @ '' '' @ statusText))
          else
            (case writeError e of
               Some message \<Rightarrow> Inl (download_failure message)
             | None \<Rightarrow> Inr (writeFileSync outputPath body w)))"

text \<open>The body of the loop over the lines of a chunk of the diagnostic stream.\<close>

definition progress_line_url :: "(string \<Rightarrow> string + json) \<Rightarrow> string \<Rightarrow> json list" where
  "progress_line_url parse line =
     (if js_includes line PROGRESS then
        (case parse (drop (nat (indexOf line PROGRESS + 9)) line) of
           Inr progressData \<Rightarrow> [progressData]
         | Inl e \<Rightarrow> [])
      else [])"

definition stderr_data_url :: "(string \<Rightarrow> string + json) \<Rightarrow> string \<Rightarrow> json list" where
  "stderr_data_url parse chunk = concat (map (progress_line_url parse) (js_split nl chunk))"

text \<open>
  The state of the promise's executor: the buffers, how the promise was settled, the
  values \<open>onProgress\<close> was called with before the promise was settled, and those it was
  called with after. The function that awaits the promise goes on as soon as it is
  settled, before the next event is handled.
\<close>

record executor = promise +
  reported :: "json list"
  late :: "json list"

definition report :: "executor \<Rightarrow> json \<Rightarrow> executor" where
  "report s progressData =
     (case settled s of
        None \<Rightarrow> s\<lparr>reported := reported s @ [progressData]\<rparr>
      | Some x \<Rightarrow> s\<lparr>late := late s @ [progressData]\<rparr>)"

fun on_event_url :: "(string \<Rightarrow> string + json) \<Rightarrow> bool \<Rightarrow> executor \<Rightarrow> event \<Rightarrow> executor" where
  "on_event_url parse onProgress s (Data (Stdout chunk)) = s\<lparr>stdoutData := stdoutData s @ chunk\<rparr>"
| "on_event_url parse onProgress s (Data (Stderr chunk)) =
     (if onProgress
      then foldl report (s\<lparr>stderrData := stderrData s @ chunk\<rparr>) (stderr_data_url parse chunk)
      else s\<lparr>stderrData := stderrData s @ chunk\<rparr>)"
| "on_event_url parse onProgress s (Close code) =
     (if code \<noteq> Some 0 then
        settle (Inl (''Python script failed with code '' @ show_code code @ '': '' @ stderrData s)) s
      else
        (case match_braces (stdoutData s) of
           Some jsonStr \<Rightarrow>
             (case parse jsonStr of
                Inr result \<Rightarrow> settle (Inr result) s
              | Inl message \<Rightarrow>
                  settle (Inl (''Failed to parse transcription result: '' @ message)) s)
         | None \<Rightarrow> settle (Inr (JObj [(''text'', JStr (trim (stdoutData s)))])) s))"
| "on_event_url parse onProgress s (ProcError message) =
     settle (Inl (''Failed to start Python transcription: '' @ message)) s"

text \<open>
  \<open>runPythonScriptWithProgress\<close> of this route: the values reported before the promise
  was settled, and how it was settled (\<open>None\<close> when it never is). The flag says whether
  an \<open>onProgress\<close> was given.
\<close>

definition runPythonScriptWithProgress_url ::
  "(string \<Rightarrow> string + json) \<Rightarrow> bool \<Rightarrow> worker_run \<Rightarrow> json list \<times> (string + json) option" where
  "runPythonScriptWithProgress_url parse onProgress run =
     (let s = foldl (on_event_url parse onProgress)
                \<lparr>stdoutData = [], stderrData = [], settled = None, reported = [], late = []\<rparr> run
      in (reported s, settled s))"

text \<open>
  The stream of this route. Its \<open>onProgress\<close> puts a frame in the queue; the stream is
  closed, and the artifact deleted, in the \<open>finally\<close> that follows the \<open>await\<close>, so that
  a call of \<open>onProgress\<close> after the promise was settled throws, inside the \<open>try\<close> of the
  supervisor. While the promise is not settled, the stream stays open.
\<close>

definition handleStreamingTranscription :: "env \<Rightarrow> string \<Rightarrow> world \<Rightarrow> response \<times> world" where
  "handleStreamingTranscription e filePath w =
     (let (progress, outcome) = runPythonScriptWithProgress_url (jsonParse e) True (worker e);
          s1 = new_stream\<lparr>frames := progress\<rparr>
      in case outcome of
           None \<Rightarrow> (StreamResponse s1, spawn filePath w)
         | Some (Inr result) \<Rightarrow>
             (StreamResponse (close (enqueue (JObj [(''type'', JStr ''complete'')]) s1)),
              cleanupFile filePath (spawn filePath w))
         | Some (Inl message) \<Rightarrow>
             (StreamResponse
                (close (enqueue (JObj [(''type'', JStr ''error''), (''error'', JStr message)]) s1)),
              cleanupFile filePath (spawn filePath w)))"

definition server_error_url :: "string \<Rightarrow> response" where
  "server_error_url message =
     JsonResponse 500
       (JObj [(''error'', JStr ''Server error processing URL''), (''message'', JStr message)])"

definition POST_url :: "env \<Rightarrow> request \<Rightarrow> world \<Rightarrow> response \<times> world" where
  "POST_url e request w =
     (case audioUrl request of
        Inl message \<Rightarrow> (server_error_url message, w)
      | Inr None \<Rightarrow> (JsonResponse 400 (JObj [(''error'', JStr ''Audio URL is required'')]), w)
      | Inr (Some u) \<Rightarrow>
          if u = [] then (JsonResponse 400 (JObj [(''error'', JStr ''Audio URL is required'')]), w)
          else
            (let wantsStreaming = wants_event_stream (accept request);
                 filePath = artifact_path e
             in case (if isYouTubeURL e u then downloadYouTubeAudio e u filePath w
                      else downloadAudioFromUrl e u filePath w) of
                  Inl message \<Rightarrow> (server_error_url message, w)
                | Inr w1 \<Rightarrow>
                    if \<not> scriptExists e then
                      (JsonResponse 500
                         (JObj [(''error'', JStr ''Server configuration error: Script not found'')]), w1)
                    else if wantsStreaming then handleStreamingTranscription e filePath w1
                    else
                      (case snd (runPythonScriptWithProgress_url (jsonParse e) False (worker e)) of
                         None \<Rightarrow> (Pending, spawn filePath w1)
                       | Some (Inr result) \<Rightarrow>
                           (JsonResponse 200 result, cleanupFile filePath (spawn filePath w1))
                       | Some (Inl message) \<Rightarrow> (server_error_url message, spawn filePath w1))))"

section \<open>The page\<close>

text \<open>
  File \<open>src/app/page.tsx\<close>. The state of the page that the two readers of an event
  stream change. A field read from an event is \<open>None\<close> when the event has no such
  member. \<open>alerts\<close> holds the values shown by \<open>alert\<close>, and \<open>logged\<close> the events written
  by \<open>console.log('Progress event:', eventData)\<close>: the events that were dispatched.
\<close>

record progress_state =
  percentage :: "json option"
  stage :: "json option"
  elapsed_time :: "json option"
  estimated_total_time :: "json option"
  isActive :: bool

record page =
  transcription :: "json option"
  isLoading :: bool
  progress :: progress_state
  alerts :: "json option list"
  logged :: "json list"

text \<open>The state in which \<open>handleProgressTranscription\<close> starts to read.\<close>

definition starting :: page where
  "starting =
     \<lparr>transcription = Some (JStr []), isLoading = True,
      progress = \<lparr>percentage = Some (JNum 0), stage = Some (JStr ''starting''),
                   elapsed_time = Some (JNum 0), estimated_total_time = None, isActive = True\<rparr>,
      alerts = [], logged = []\<rparr>"

definition set_progress :: "json \<Rightarrow> page \<Rightarrow> page" where
  "set_progress eventData p =
     p\<lparr>progress := (progress p)
         \<lparr>percentage := field eventData ''percentage'', stage := field eventData ''stage'',
          elapsed_time := field eventData ''elapsed_time'',
          estimated_total_time := field eventData ''estimated_total_time''\<rparr>\<rparr>"

definition set_complete :: "json \<Rightarrow> page \<Rightarrow> page" where
  "set_complete eventData p =
     p\<lparr>transcription := field eventData ''result'',
       progress := (progress p)
         \<lparr>percentage := Some (JNum 100), stage := Some (JStr ''complete''), isActive := False\<rparr>,
       isLoading := False\<rparr>"

text \<open>
  The reader inside \<open>handleProgressTranscription\<close>, for an upload. Each chunk read is
  split into lines by itself; nothing of a chunk is kept for the next one. The chunks
  are the texts that the decoder makes of the bytes read.
\<close>

definition on_event_upload :: "json \<Rightarrow> page \<Rightarrow> page" where
  "on_event_upload eventData p =
     (let p1 = p\<lparr>logged := logged p @ [eventData]\<rparr>
      in if eventData = JNull then p1
         else if field eventData ''type'' = Some (JStr ''progress'') then set_progress eventData p1
         else if field eventData ''type'' = Some (JStr ''complete'') then set_complete eventData p1
         else if field eventData ''type'' = Some (JStr ''error'') then
           p1\<lparr>progress := (progress p1)\<lparr>isActive := False\<rparr>, isLoading := False,
              alerts := alerts p1 @ [field eventData ''error'']\<rparr>
         else p1)"

definition on_line_upload :: "(string \<Rightarrow> string + json) \<Rightarrow> page \<Rightarrow> string \<Rightarrow> page" where
  "on_line_upload parse p line =
     (if startsWith line ''data: '' then
        (case parse (drop 6 line) of
           Inr eventData \<Rightarrow> on_event_upload eventData p
         | Inl e \<Rightarrow> p)
      else p)"

definition on_chunk_upload :: "(string \<Rightarrow> string + json) \<Rightarrow> page \<Rightarrow> string \<Rightarrow> page" where
  "on_chunk_upload parse p chunk = foldl (on_line_upload parse) p (js_split nl chunk)"

definition read_upload_stream :: "(string \<Rightarrow> string + json) \<Rightarrow> string list \<Rightarrow> page \<Rightarrow> page" where
  "read_upload_stream parse chunks p = foldl (on_chunk_upload parse) p chunks"

text \<open>
  \<open>processStreamingResponse\<close>, the reader for a URL. After a \<open>complete\<close> event it leaves
  the loop over the lines of the chunk; the error it throws for an \<open>error\<close> event is
  caught by the \<open>catch\<close> around the line, which only warns.
\<close>

fun on_lines_url :: "(string \<Rightarrow> string + json) \<Rightarrow> page \<Rightarrow> string list \<Rightarrow> page" where
  "on_lines_url parse p [] = p"
| "on_lines_url parse p (line # rest) =
     (if startsWith line ''data: '' then
        (case parse (drop 6 line) of
           Inr eventData \<Rightarrow>
             (let p1 = p\<lparr>logged := logged p @ [eventData]\<rparr>
              in if eventData = JNull then on_lines_url parse p1 rest
                 else if field eventData ''type'' = Some (JStr ''progress'') then
                   on_lines_url parse (set_progress eventData p1) rest
                 else if field eventData ''type'' = Some (JStr ''complete'') then
                   set_complete eventData p1
                 else on_lines_url parse p1 rest)
         | Inl e \<Rightarrow> on_lines_url parse p rest)
      else on_lines_url parse p rest)"

definition processStreamingResponse :: "(string \<Rightarrow> string + json) \<Rightarrow> string list \<Rightarrow> page \<Rightarrow> page" where
  "processStreamingResponse parse chunks p =
     foldl (\<lambda>p chunk. on_lines_url parse p (js_split nl chunk)) p chunks"

section \<open>Concrete inputs\<close>

text \<open>A machine, a worker run and a server state on which the results below are run.\<close>

definition quiet_run :: worker_run where
  "quiet_run = [Close (Some 0)]"

text \<open>What \<open>new URL\<close> makes of the two addresses used below; it throws on any other text.\<close>

definition known_urls :: "(string \<times> url) list" where
  "known_urls =
     [(''https://www.youtube.com/'',
       \<lparr>hostname = ''www.youtube.com'', pathname = ''/'', searchParams = []\<rparr>),
      (''https://example.com/a.mp3'',
       \<lparr>hostname = ''example.com'', pathname = ''/a.mp3'', searchParams = []\<rparr>)]"

definition machine :: env where
  "machine =
     \<lparr>jsonParse = json_parse, uuidv4 = ''u1'', cwd = ''/app'', scriptExists = True,
      writeError = None, worker = quiet_run, newURL = map_of known_urls,
      fetch = (\<lambda>u. FetchError ''fetch failed''),
      execAsync = (\<lambda>c. ExecError ''Command failed'')\<rparr>"

text \<open>
  A worker that reports progress once, then fails with exit code 1; and what it wrote
  before it exited.
\<close>

definition failing_run :: worker_run where
  "failing_run =
     [Data (Stderr (''PROGRESS:{\"percentage\":10}'' @ [nl])), Data (Stderr (''Traceback'' @ [nl])),
      Close (Some 1)]"

definition failing_output :: "data_event list" where
  "failing_output =
     [Stderr (''PROGRESS:{\"percentage\":10}'' @ [nl]), Stderr (''Traceback'' @ [nl])]"

definition failing_machine :: env where
  "failing_machine = machine\<lparr>worker := failing_run\<rparr>"





text \<open>A spawn that fails: the program is not there.\<close>

definition failed_spawn_run :: worker_run where
  "failed_spawn_run = [ProcError ''spawn python ENOENT'', Close (Some (- 2))]"

definition failed_spawn_machine :: env where
  "failed_spawn_machine = machine\<lparr>worker := failed_spawn_run\<rparr>"


text \<open>
  The home page of the video site, a machine on which fetching it answers the page, and
  one on which fetching answers status 404.
\<close>

definition youtube_home :: string where
  "youtube_home = ''https://www.youtube.com/''"

definition youtube_machine :: env where
  "youtube_machine = machine\<lparr>fetch := (\<lambda>u. FetchResponse True 200 ''OK'' ''<!DOCTYPE html>'')\<rparr>"

definition youtube_down_machine :: env where
  "youtube_down_machine = youtube_machine\<lparr>fetch := (\<lambda>u. FetchResponse False 404 ''Not Found'' [])\<rparr>"

definition home_request :: request where
  "home_request =
     \<lparr>formData = Inl ''Content-Type was not one of multipart/form-data'',
      audioUrl = Inr (Some youtube_home), accept = Some ''text/event-stream''\<rparr>"

text \<open>
  A worker that reports progress once and ends well with a result; a site that answers
  every fetch with an audio file; a submission of a direct address; an upload of a file.
\<close>

definition good_run :: worker_run where
  "good_run =
     [Data (Stderr (''PROGRESS:{\"type\":\"progress\",\"percentage\":50}'' @ [nl])),
      Data (Stdout ''{\"success\":true,\"text\":\"hi\",\"processing_time\":2}''),
      Close (Some 0)]"

definition audio_site :: "string \<Rightarrow> fetch_result" where
  "audio_site u = FetchResponse True 200 ''OK'' ''ID3''"

definition good_machine :: env where
  "good_machine = machine\<lparr>worker := good_run, fetch := audio_site\<rparr>"

definition failing_url_machine :: env where
  "failing_url_machine = machine\<lparr>worker := failing_run, fetch := audio_site\<rparr>"

definition direct_request :: "string option \<Rightarrow> request" where
  "direct_request acceptHeader =
     \<lparr>formData = Inl ''Content-Type was not one of multipart/form-data'',
      audioUrl = Inr (Some ''https://example.com/a.mp3''), accept = acceptHeader\<rparr>"

definition upload :: "string option \<Rightarrow> request" where
  "upload acceptHeader =
     \<lparr>formData = Inr [''audio'' \<mapsto> FormBlob ''ID3''],
      audioUrl = Inl ''Unexpected token'', accept = acceptHeader\<rparr>"



text \<open>
  The text of an event stream: a line \<open>data: \<close> with the JSON text of a payload, then an
  empty line; and the text of several frames, each given with the event that its
  payload stands for.
\<close>

definition data_line :: "string \<Rightarrow> string" where
  "data_line payload = ''data: '' @ payload"

definition sse_frame :: "string \<Rightarrow> string" where
  "sse_frame payload = data_line payload @ [nl, nl]"

definition frames_text :: "(string \<times> json) list \<Rightarrow> string" where
  "frames_text fs = concat (map (\<lambda>(payload, eventData). sse_frame payload) fs)"

text \<open>Two payloads with their events, and a frame cut in two between two reads.\<close>

definition progress_event :: json where
  "progress_event = JObj [(''type'', JStr ''progress''), (''percentage'', JNum 50)]"

definition complete_event :: json where
  "complete_event = JObj [(''type'', JStr ''complete''), (''result'', JObj [(''text'', JStr ''hi'')])]"

definition progress_text :: string where
  "progress_text = ''{\"type\":\"progress\",\"percentage\":50}''"

definition complete_text :: string where
  "complete_text = ''{\"type\":\"complete\",\"result\":{\"text\":\"hi\"}}''"

definition first_half :: string where
  "first_half = ''data: {\"type\":\"pro''"

definition second_half :: string where
  "second_half = ''gress\",\"percentage\":50}'' @ [nl, nl]"

definition empty_world :: world where
  "empty_world = \<lparr>files = Map.empty, spawned = []\<rparr>"

section \<open>Results\<close>

subsection \<open>Lines and markers\<close>

lemma js_split_not_Nil: "js_split c s \<noteq> []"
  by (induction s) (auto split: list.splits)

lemma js_split_append: "js_split c (a @ c # b) = js_split c a @ js_split c b"
proof (induction a)
  case Nil
  show ?case by simp
next
  case (Cons x a)
  then show ?case
    using js_split_not_Nil [of c a] by (cases "js_split c a") auto
qed

lemma js_split_single: "c \<notin> set s \<Longrightarrow> js_split c s = [s]"
  by (induction s) auto









text \<open>The equations by which \<open>json_parse\<close> is run on a text.\<close>

lemmas run_json_parse =
  startsWith_def skip_ws_def is_json_ws_def is_digit_def digits_val_def parse_number_def
  json_parse_def

subsection \<open>An upload without an audio file\<close>

text \<open>
  Claim C10. When the form data of an upload has no field \<open>audio\<close>, or the field holds a
  string and not a file, the upload route answers status 400 with the error
  \<open>No audio file provided\<close>, and the state of the server is the one before the request:
  no artifact file was written.
\<close>

theorem POST_local_no_audio:
  assumes "formData request = Inr form"
    and "form ''audio'' = None \<or> (\<exists>s. form ''audio'' = Some (FormString s))"
  shows "POST_local e request w =
           (JsonResponse 400 (JObj [(''error'', JStr ''No audio file provided'')]), w)"
  using assms by (auto simp: POST_local_def no_audio_def)

theorem POST_local_no_audio_witness:
  "POST_local machine
     \<lparr>formData = Inr [''audio'' \<mapsto> FormString ''song.mp3''], audioUrl = Inr None,
      accept = Some ''text/event-stream''\<rparr> empty_world =
   (JsonResponse 400 (JObj [(''error'', JStr ''No audio file provided'')]), empty_world)"
  using POST_local_no_audio
    [of "\<lparr>formData = Inr [''audio'' \<mapsto> FormString ''song.mp3''], audioUrl = Inr None,
          accept = Some ''text/event-stream''\<rparr>"
        "[''audio'' \<mapsto> FormString ''song.mp3'']" machine empty_world]
  by simp

subsection \<open>A marker after a prefix\<close>




subsection \<open>What the supervisors do with a run\<close>

lemma progress_line_local_progress: "\<exists>qs. progress_line_local parse l = map OnProgress qs"
proof (cases "startsWith l PROGRESS")
  case False
  then have "progress_line_local parse l = map OnProgress []"
    by (simp add: progress_line_local_def)
  then show ?thesis by blast
next
  case True
  show ?thesis
  proof (cases "parse (drop (length PROGRESS) l)")
    case (Inl m)
    with True have "progress_line_local parse l = map OnProgress []"
      by (simp add: progress_line_local_def)
    then show ?thesis by blast
  next
    case (Inr v)
    with True have "progress_line_local parse l = map OnProgress [v]"
      by (simp add: progress_line_local_def)
    then show ?thesis by blast
  qed
qed

lemma stderr_data_local_progress: "\<exists>ps. stderr_data_local parse chunk = map OnProgress ps"
proof -
  have "\<exists>ps. concat (map (progress_line_local parse) ls) = map OnProgress ps" for ls
  proof (induction ls)
    case Nil
    have "concat (map (progress_line_local parse) []) = map OnProgress []" by simp
    then show ?case by blast
  next
    case (Cons l ls)
    then obtain ps where ps: "concat (map (progress_line_local parse) ls) = map OnProgress ps"
      by blast
    obtain qs where "progress_line_local parse l = map OnProgress qs"
      using progress_line_local_progress by blast
    with ps have "concat (map (progress_line_local parse) (l # ls)) = map OnProgress (qs @ ps)"
      by simp
    then show ?case by blast
  qed
  then show ?thesis by (simp add: stderr_data_local_def)
qed



lemma calls_call [simp]: "calls (call callbacks s c) = calls s @ [c]"
  by (simp add: call_def split: option.split)

lemma stdoutData_call [simp]: "stdoutData (call callbacks s c) = stdoutData s"
  by (simp add: call_def split: option.split)

lemma stderrData_call [simp]: "stderrData (call callbacks s c) = stderrData s"
  by (simp add: call_def split: option.split)

lemma call_stdoutData_update:
  "call callbacks (s\<lparr>stdoutData := x\<rparr>) c = (call callbacks s c)\<lparr>stdoutData := x\<rparr>"
  by (simp add: call_def split: option.split)

lemma call_stderrData_update:
  "call callbacks (s\<lparr>stderrData := x\<rparr>) c = (call callbacks s c)\<lparr>stderrData := x\<rparr>"
  by (simp add: call_def split: option.split)

lemma foldl_call_stdoutData_update:
  "foldl (call callbacks) (s\<lparr>stdoutData := x\<rparr>) cs = (foldl (call callbacks) s cs)\<lparr>stdoutData := x\<rparr>"
  by (induction cs arbitrary: s) (simp_all add: call_stdoutData_update)

lemma foldl_call_stderrData_update:
  "foldl (call callbacks) (s\<lparr>stderrData := x\<rparr>) cs = (foldl (call callbacks) s cs)\<lparr>stderrData := x\<rparr>"
  by (induction cs arbitrary: s) (simp_all add: call_stderrData_update)

lemma calls_foldl_call [simp]: "calls (foldl (call callbacks) s cs) = calls s @ cs"
  by (induction cs arbitrary: s) simp_all

lemma stdoutData_foldl_call [simp]: "stdoutData (foldl (call callbacks) s cs) = stdoutData s"
  by (induction cs arbitrary: s) simp_all

lemma stderrData_foldl_call [simp]: "stderrData (foldl (call callbacks) s cs) = stderrData s"
  by (induction cs arbitrary: s) simp_all

lemma throws_stderrData_update [simp]:
  "throws callbacks (s\<lparr>stderrData := x\<rparr>) c = throws callbacks s c"
  by (simp add: throws_def)


text \<open>
  The data events of a run can be handled in two steps: first fill the buffers, then
  make the calls.
\<close>

lemma data_events_local:
  "foldl (on_event_local parse callbacks) s (map Data outs) =
     foldl (call callbacks)
       (s\<lparr>stdoutData := stdoutData s @ stdout_text outs,
          stderrData := stderrData s @ stderr_text outs\<rparr>)
       (concat (map (stderr_data_local parse) (stderr_chunks outs)))"
proof (induction outs arbitrary: s)
  case Nil
  show ?case by (simp add: stdout_text_def stderr_text_def stderr_chunks_def)
next
  case (Cons d outs)
  show ?case
  proof (cases d)
    case (Stdout chunk)
    then show ?thesis
      by (simp add: Cons.IH stdout_text_def stderr_text_def stderr_chunks_def)
  next
    case (Stderr chunk)
    have "foldl (on_event_local parse callbacks) s (map Data (d # outs)) =
            foldl (on_event_local parse callbacks)
              (foldl (call callbacks) (s\<lparr>stderrData := stderrData s @ chunk\<rparr>)
                 (stderr_data_local parse chunk))
              (map Data outs)"
      by (simp add: Stderr)
    also have "\<dots> = foldl (call callbacks)
        ((foldl (call callbacks) (s\<lparr>stderrData := stderrData s @ chunk\<rparr>)
            (stderr_data_local parse chunk))
         \<lparr>stdoutData := stdoutData s @ stdout_text outs,
          stderrData := stderrData s @ chunk @ stderr_text outs\<rparr>)
        (concat (map (stderr_data_local parse) (stderr_chunks outs)))"
      by (simp add: Cons.IH)
    also have "\<dots> = foldl (call callbacks)
        (foldl (call callbacks)
           (s\<lparr>stdoutData := stdoutData s @ stdout_text (d # outs),
              stderrData := stderrData s @ stderr_text (d # outs)\<rparr>)
           (stderr_data_local parse chunk))
        (concat (map (stderr_data_local parse) (stderr_chunks outs)))"
      by (simp add: Stderr stdout_text_def stderr_text_def
          foldl_call_stdoutData_update [symmetric] foldl_call_stderrData_update [symmetric])
    also have "\<dots> = foldl (call callbacks)
           (s\<lparr>stdoutData := stdoutData s @ stdout_text (d # outs),
              stderrData := stderrData s @ stderr_text (d # outs)\<rparr>)
           (concat (map (stderr_data_local parse) (stderr_chunks (d # outs))))"
      by (simp add: Stderr stderr_chunks_def)
    finally show ?thesis .
  qed
qed

lemma exited_run_local:
  "runPythonScriptWithProgress_local parse callbacks (map Data outs @ [Close code]) st =
     on_close_local parse callbacks
       (foldl (call callbacks)
          \<lparr>stdoutData = stdout_text outs, stderrData = stderr_text outs, calls = [], client = st\<rparr>
          (concat (map (stderr_data_local parse) (stderr_chunks outs))))
       code"
  by (simp add: runPythonScriptWithProgress_local_def data_events_local)

text \<open>The callbacks of the upload route, while the stream is open.\<close>

lemma foldl_relay_progress:
  assumes "\<not> closed (fst (client s))"
  shows "foldl (call (relay filePath)) s (map OnProgress ps) =
           s\<lparr>calls := calls s @ map OnProgress ps,
             client := ((fst (client s))\<lparr>frames := frames (fst (client s)) @ ps\<rparr>, snd (client s))\<rparr>"
  using assms
proof (induction ps arbitrary: s)
  case Nil
  show ?case by simp
next
  case (Cons p ps)
  obtain st w where c: "client s = (st, w)" by (cases "client s")
  with Cons.prems have o: "\<not> closed st" by simp
  have step: "call (relay filePath) s (OnProgress p) =
                s\<lparr>calls := calls s @ [OnProgress p], client := (enqueue p st, w)\<rparr>"
    using o by (simp add: call_def c)
  have "\<not> closed (fst (client (call (relay filePath) s (OnProgress p))))"
    using o by (simp add: step enqueue_def)
  from Cons.IH [OF this] show ?case
    by (simp add: step c enqueue_def)
qed

text \<open>The promises.\<close>

lemma foldl_report:
  "settled s = None \<Longrightarrow> foldl report s vs = s\<lparr>reported := reported s @ vs\<rparr>"
  by (induction vs arbitrary: s) (simp_all add: report_def)

lemma data_events_url:
  assumes "settled s = None"
  shows "foldl (on_event_url parse onProgress) s (map Data outs) =
     s\<lparr>stdoutData := stdoutData s @ stdout_text outs,
       stderrData := stderrData s @ stderr_text outs,
       reported := reported s @
         (if onProgress then concat (map (stderr_data_url parse) (stderr_chunks outs)) else [])\<rparr>"
  using assms
proof (induction outs arbitrary: s)
  case Nil
  show ?case by (simp add: stdout_text_def stderr_text_def stderr_chunks_def)
next
  case (Cons d outs)
  show ?case
  proof (cases d)
    case (Stdout chunk)
    with Cons.prems show ?thesis
      by (simp add: Cons.IH stdout_text_def stderr_text_def stderr_chunks_def)
  next
    case (Stderr chunk)
    with Cons.prems show ?thesis
      by (simp add: Cons.IH foldl_report stdout_text_def stderr_text_def stderr_chunks_def)
  qed
qed

lemma data_events_plain:
  "foldl (on_event_plain parse) s (map Data outs) =
     s\<lparr>stdoutData := stdoutData s @ stdout_text outs,
       stderrData := stderrData s @ stderr_text outs\<rparr>"
proof (induction outs arbitrary: s)
  case Nil
  show ?case by (simp add: stdout_text_def stderr_text_def)
next
  case (Cons d outs)
  then show ?case by (cases d) (simp_all add: stdout_text_def stderr_text_def)
qed

lemma exited_run_url:
  "runPythonScriptWithProgress_url parse onProgress (map Data outs @ [Close code]) =
     ((if onProgress then concat (map (stderr_data_url parse) (stderr_chunks outs)) else []),
      Some (if code \<noteq> Some 0 then
              Inl (''Python script failed with code '' @ show_code code @ '': '' @ stderr_text outs)
            else
              (case match_braces (stdout_text outs) of
                 Some jsonStr \<Rightarrow>
                   (case parse jsonStr of
                      Inr result \<Rightarrow> Inr result
                    | Inl message \<Rightarrow> Inl (''Failed to parse transcription result: '' @ message))
               | None \<Rightarrow> Inr (JObj [(''text'', JStr (trim (stdout_text outs)))]))))"
  by (simp add: runPythonScriptWithProgress_url_def data_events_url settle_def
      split: option.split sum.split)

lemma exited_run_plain:
  "runPythonScript parse (map Data outs @ [Close code]) =
     Some (if code \<noteq> Some 0 then
             Inl (''Python script exited with code '' @ show_code code @ '': '' @ stderr_text outs)
           else
             (case match_braces (stdout_text outs) of
                Some jsonStr \<Rightarrow> parse jsonStr
              | None \<Rightarrow> Inr (JObj [(''text'', JStr (trim (stdout_text outs)))])))"
  by (simp add: runPythonScript_def data_events_plain settle_def split: option.split)

lemma progress_calls_local:
  "\<exists>ps. concat (map (stderr_data_local parse) chunks) = map OnProgress ps"
proof (induction chunks)
  case Nil
  have "concat (map (stderr_data_local parse) []) = map OnProgress []" by simp
  then show ?case by blast
next
  case (Cons chunk chunks)
  then obtain ps where "concat (map (stderr_data_local parse) chunks) = map OnProgress ps" by blast
  moreover obtain qs where "stderr_data_local parse chunk = map OnProgress qs"
    using stderr_data_local_progress by blast
  ultimately have "concat (map (stderr_data_local parse) (chunk # chunks)) = map OnProgress (qs @ ps)"
    by simp
  then show ?case by blast
qed

text \<open>
  A worker that was spawned and exits with a status other than 0: the calls of the
  upload route's supervisor, whatever its callbacks are, and its stream.
\<close>

lemma failed_exit_local:
  assumes "code \<noteq> Some 0"
  shows "\<exists>ps.
      calls (runPythonScriptWithProgress_local parse callbacks (map Data outs @ [Close code]) st) =
        map OnProgress ps @
        [OnError (''Python script exited with code '' @ show_code code @ '': '' @ stderr_text outs)]
    \<and> client (runPythonScriptWithProgress_local parse (relay filePath)
                 (map Data outs @ [Close code]) (new_stream, w)) =
        (\<lparr>frames = ps @
            [JObj [(''type'', JStr ''error''),
                   (''error'', JStr (''Python script exited with code '' @ show_code code @ '': ''
                      @ stderr_text outs))]],
          closed = True\<rparr>,
         cleanupFile filePath w)"
proof -
  obtain ps where ps:
    "concat (map (stderr_data_local parse) (stderr_chunks outs)) = map OnProgress ps"
    using progress_calls_local by blast
  have a: "calls (runPythonScriptWithProgress_local parse callbacks (map Data outs @ [Close code]) st) =
        map OnProgress ps @
        [OnError (''Python script exited with code '' @ show_code code @ '': '' @ stderr_text outs)]"
    using assms by (simp add: exited_run_local on_close_local_def ps)
  have b: "client (runPythonScriptWithProgress_local parse (relay filePath)
                 (map Data outs @ [Close code]) (new_stream, w)) =
        (\<lparr>frames = ps @
            [JObj [(''type'', JStr ''error''),
                   (''error'', JStr (''Python script exited with code '' @ show_code code @ '': ''
                      @ stderr_text outs))]],
          closed = True\<rparr>,
         cleanupFile filePath w)"
    using assms
    by (simp add: exited_run_local on_close_local_def ps foldl_relay_progress new_stream_def
        call_def enqueue_def close_def)
  from a b show ?thesis by blast
qed

subsection \<open>A worker that fails\<close>

text \<open>
  Claim C4, as amended. Let the worker have been spawned, so that its run is data events
  and then the close event, and let it exit with a status other than 0, also after
  progress was reported. Then each supervisor ends with one error that carries the exit
  code and all the text of the diagnostic stream: the supervisor of the upload route,
  whatever its callbacks do, makes \<open>onProgress\<close> calls and then the one \<open>onError\<close> call, so
  that the stream of the response holds the progress frames, then the one \<open>error\<close>
  frame, and is closed; the promises of \<open>runPythonScript\<close> and of the URL route are
  rejected with that message, and the stream of the URL route holds its progress
  frames, then the \<open>error\<close> frame of that message, and is closed.
\<close>

theorem nonzero_exit_one_error:
  assumes "worker e = map Data outs @ [Close code]" and "code \<noteq> Some 0"
  shows "\<exists>ps.
      calls (runPythonScriptWithProgress_local (jsonParse e) callbacks (worker e) st) =
        map OnProgress ps @
        [OnError (''Python script exited with code '' @ show_code code @ '': '' @ stderr_text outs)]
    \<and> fst (handleProgressStreamRequest e filePath w) =
        StreamResponse
          \<lparr>frames = ps @
             [JObj [(''type'', JStr ''error''),
                    (''error'', JStr (''Python script exited with code '' @ show_code code @ '': ''
                       @ stderr_text outs))]],
           closed = True\<rparr>
    \<and> runPythonScript (jsonParse e) (worker e) =
        Some (Inl (''Python script exited with code '' @ show_code code @ '': '' @ stderr_text outs))
    \<and> snd (runPythonScriptWithProgress_url (jsonParse e) b (worker e)) =
        Some (Inl (''Python script failed with code '' @ show_code code @ '': '' @ stderr_text outs))
    \<and> fst (handleStreamingTranscription e filePath w) =
        StreamResponse
          \<lparr>frames = concat (map (stderr_data_url (jsonParse e)) (stderr_chunks outs)) @
             [JObj [(''type'', JStr ''error''),
                    (''error'', JStr (''Python script failed with code '' @ show_code code @ '': ''
                       @ stderr_text outs))]],
           closed = True\<rparr>"
proof -
  obtain ps where ps:
    "calls (runPythonScriptWithProgress_local (jsonParse e) callbacks (map Data outs @ [Close code]) st) =
        map OnProgress ps @
        [OnError (''Python script exited with code '' @ show_code code @ '': '' @ stderr_text outs)]"
    and cl: "client (runPythonScriptWithProgress_local (jsonParse e) (relay filePath)
                 (map Data outs @ [Close code]) (new_stream, spawn filePath w)) =
        (\<lparr>frames = ps @
            [JObj [(''type'', JStr ''error''),
                   (''error'', JStr (''Python script exited with code '' @ show_code code @ '': ''
                      @ stderr_text outs))]],
          closed = True\<rparr>,
         cleanupFile filePath (spawn filePath w))"
    using failed_exit_local
      [OF assms(2), of "jsonParse e" callbacks outs st filePath "spawn filePath w"]
    by blast
  have local_stream: "fst (handleProgressStreamRequest e filePath w) =
        StreamResponse
          \<lparr>frames = ps @
             [JObj [(''type'', JStr ''error''),
                    (''error'', JStr (''Python script exited with code '' @ show_code code @ '': ''
                       @ stderr_text outs))]],
           closed = True\<rparr>"
    by (simp add: handleProgressStreamRequest_def assms(1) cl)
  have plain: "runPythonScript (jsonParse e) (worker e) =
        Some (Inl (''Python script exited with code '' @ show_code code @ '': '' @ stderr_text outs))"
    using assms(2) by (simp add: assms(1) exited_run_plain)
  have url: "snd (runPythonScriptWithProgress_url (jsonParse e) b (worker e)) =
        Some (Inl (''Python script failed with code '' @ show_code code @ '': '' @ stderr_text outs))"
    using assms(2) by (simp add: assms(1) exited_run_url)
  have url_stream: "fst (handleStreamingTranscription e filePath w) =
        StreamResponse
          \<lparr>frames = concat (map (stderr_data_url (jsonParse e)) (stderr_chunks outs)) @
             [JObj [(''type'', JStr ''error''),
                    (''error'', JStr (''Python script failed with code '' @ show_code code @ '': ''
                       @ stderr_text outs))]],
           closed = True\<rparr>"
    using assms(2)
    by (simp add: handleStreamingTranscription_def assms(1) exited_run_url new_stream_def
        enqueue_def close_def)
  from ps local_stream plain url url_stream show ?thesis
    by (simp add: assms(1))
qed


text \<open>The texts of two exit codes.\<close>

lemma show_code_examples:
  "show_code (Some 1) = ''1''" "show_code (Some (- 2)) = ''-2''"
  by (simp_all add: show_code_def show_int_def show_nat.simps digit_char_def)

theorem nonzero_exit_one_error_witness:
  "worker failing_machine = map Data failing_output @ [Close (Some 1)]
   \<and> (\<exists>ps. calls (runPythonScriptWithProgress_local json_parse (relay ''/app/tmp/u1.mp3'')
                     failing_run (new_stream, empty_world)) =
            map OnProgress ps @
            [OnError (''Python script exited with code 1: PROGRESS:{\"percentage\":10}'' @ [nl]
                        @ ''Traceback'' @ [nl])])
   \<and> snd (runPythonScriptWithProgress_url json_parse True failing_run) =
       Some (Inl (''Python script failed with code 1: PROGRESS:{\"percentage\":10}'' @ [nl]
                    @ ''Traceback'' @ [nl]))"
proof -
  have h: "worker failing_machine = map Data failing_output @ [Close (Some 1)]"
    by (simp add: failing_machine_def failing_run_def failing_output_def)
  have t: "stderr_text failing_output =
             ''PROGRESS:{\"percentage\":10}'' @ [nl] @ ''Traceback'' @ [nl]"
    by (simp add: failing_output_def stderr_text_def)
  have m: "jsonParse failing_machine = json_parse" "worker failing_machine = failing_run"
    by (simp_all add: failing_machine_def machine_def)
  from nonzero_exit_one_error
    [of failing_machine failing_output "Some 1" "relay ''/app/tmp/u1.mp3''"
        "(new_stream, empty_world)" "''/app/tmp/u1.mp3''" empty_world True] h
  obtain ps where
    "calls (runPythonScriptWithProgress_local (jsonParse failing_machine) (relay ''/app/tmp/u1.mp3'')
              (worker failing_machine) (new_stream, empty_world)) =
        map OnProgress ps @
        [OnError (''Python script exited with code '' @ show_code (Some 1) @ '': ''
                    @ stderr_text failing_output)]"
    and "snd (runPythonScriptWithProgress_url (jsonParse failing_machine) True
                (worker failing_machine)) =
        Some (Inl (''Python script failed with code '' @ show_code (Some 1) @ '': ''
                     @ stderr_text failing_output))"
    by auto
  then have "calls (runPythonScriptWithProgress_local json_parse (relay ''/app/tmp/u1.mp3'')
                     failing_run (new_stream, empty_world)) =
            map OnProgress ps @
            [OnError (''Python script exited with code 1: PROGRESS:{\"percentage\":10}'' @ [nl]
                        @ ''Traceback'' @ [nl])]"
    and "snd (runPythonScriptWithProgress_url json_parse True failing_run) =
       Some (Inl (''Python script failed with code 1: PROGRESS:{\"percentage\":10}'' @ [nl]
                    @ ''Traceback'' @ [nl]))"
    by (simp_all add: m t show_code_examples)
  with h show ?thesis by blast
qed

text \<open>
  The claim as it was written spoke of every failure. When the spawn itself fails, the
  process emits \<open>error\<close> and then \<open>close\<close> with a status that is not 0: the supervisor of the
  upload route calls \<open>onError\<close> twice, once for each event, and the second call finds the
  stream closed, so that the stream holds the one frame of the spawn error; the
  promises are rejected by the \<open>error\<close> event, with a message that carries no exit code,
  and the rejection of the \<open>close\<close> event is lost.
\<close>

theorem nonzero_exit_one_error_counterexample:
  "calls (runPythonScriptWithProgress_local json_parse (relay ''/app/tmp/u1.mp3'')
            failed_spawn_run (new_stream, empty_world)) =
     [OnError ''Failed to start transcription process: spawn python ENOENT'',
      OnError ''Python script exited with code -2: '']
   \<and> fst (handleProgressStreamRequest failed_spawn_machine ''/app/tmp/u1.mp3'' empty_world) =
     StreamResponse
       \<lparr>frames = [JObj [(''type'', JStr ''error''),
                         (''error'', JStr ''Failed to start transcription process: spawn python ENOENT'')]],
        closed = True\<rparr>
   \<and> runPythonScript json_parse failed_spawn_run = Some (Inl ''spawn python ENOENT'')
   \<and> snd (runPythonScriptWithProgress_url json_parse True failed_spawn_run) =
     Some (Inl ''Failed to start Python transcription: spawn python ENOENT'')"
  by (simp add: failed_spawn_run_def failed_spawn_machine_def machine_def
      runPythonScriptWithProgress_local_def on_close_local_def call_def new_stream_def
      enqueue_def close_def handleProgressStreamRequest_def runPythonScript_def
      runPythonScriptWithProgress_url_def settle_def show_code_examples)

subsection \<open>A worker that ends well without JSON\<close>





subsection \<open>A progress line that does not parse\<close>




subsection \<open>The percentage of a frame\<close>





lemma relayed_buffers [simp]:
  "relayed Q (s\<lparr>stdoutData := x\<rparr>) = relayed Q s"
  "relayed Q (s\<lparr>stderrData := y\<rparr>) = relayed Q s"
  by (simp_all add: relayed_def)










subsection \<open>The last frame of a job that ends well\<close>

text \<open>The equations by which the two routes are run on a request.\<close>

lemmas run_POST_url =
  Let_def POST_url_def isYouTubeURL_def hasVideoPath_def js_includes_def toLowerCase_def lower_char_def
  wants_event_stream_def downloadAudioFromUrl_def artifact_path_def
  handleStreamingTranscription_def runPythonScriptWithProgress_url_def settle_def report_def
  stderr_data_url_def progress_line_url_def indexOf_def PROGRESS_def match_braces_def
  writeFileSync_def spawn_def cleanupFile_def new_stream_def enqueue_def close_def
  server_error_url_def show_code_def show_int_def show_nat.simps digit_char_def

lemmas run_POST_local =
  Let_def POST_local_def wants_event_stream_def js_includes_def artifact_path_def
  handleProgressStreamRequest_def handleRegularRequest_def runPythonScriptWithProgress_local_def
  on_close_local_def call_in_try_def throws_def call_def settle_def
  runPythonScript_def stderr_data_local_def progress_line_local_def PROGRESS_def match_braces_def
  writeFileSync_def spawn_def cleanupFile_def new_stream_def enqueue_def close_def
  show_code_def show_int_def show_nat.simps digit_char_def

text \<open>
  When the worker was spawned, exits with status 0 and the braces of its output hold
  JSON, the stream of the upload route ends with the \<open>complete\<close> frame that wraps the
  result, and the stream of the URL route with a \<open>complete\<close> frame that has no other
  member, although its supervisor resolved with the result. Both streams are then
  closed, and the artifact is deleted.
\<close>

lemma job_that_ends_well:
  assumes "worker e = map Data outs @ [Close (Some 0)]"
    and "match_braces (stdout_text outs) = Some jsonStr"
    and "jsonParse e jsonStr = Inr result"
  shows "\<exists>ps.
      handleProgressStreamRequest e filePath w =
        (StreamResponse
          \<lparr>frames = ps @ [JObj [(''type'', JStr ''complete''), (''result'', result)]],
           closed = True\<rparr>,
         cleanupFile filePath (spawn filePath w))
    \<and> snd (runPythonScriptWithProgress_url (jsonParse e) True (worker e)) = Some (Inr result)
    \<and> handleStreamingTranscription e filePath w =
        (StreamResponse
          \<lparr>frames = concat (map (stderr_data_url (jsonParse e)) (stderr_chunks outs))
                      @ [JObj [(''type'', JStr ''complete'')]],
           closed = True\<rparr>,
         cleanupFile filePath (spawn filePath w))"
proof -
  obtain ps where ps:
    "concat (map (stderr_data_local (jsonParse e)) (stderr_chunks outs)) = map OnProgress ps"
    using progress_calls_local by blast
  have local_stream: "handleProgressStreamRequest e filePath w =
        (StreamResponse
          \<lparr>frames = ps @ [JObj [(''type'', JStr ''complete''), (''result'', result)]],
           closed = True\<rparr>,
         cleanupFile filePath (spawn filePath w))"
    by (simp add: handleProgressStreamRequest_def assms exited_run_local on_close_local_def ps
        foldl_relay_progress new_stream_def call_in_try_def throws_def call_def enqueue_def
        close_def)
  have url: "runPythonScriptWithProgress_url (jsonParse e) True (worker e) =
      (concat (map (stderr_data_url (jsonParse e)) (stderr_chunks outs)), Some (Inr result))"
    by (simp add: assms exited_run_url)
  have url_stream: "handleStreamingTranscription e filePath w =
        (StreamResponse
          \<lparr>frames = concat (map (stderr_data_url (jsonParse e)) (stderr_chunks outs))
                      @ [JObj [(''type'', JStr ''complete'')]],
           closed = True\<rparr>,
         cleanupFile filePath (spawn filePath w))"
    by (simp add: handleStreamingTranscription_def url new_stream_def enqueue_def close_def)
  from local_stream url url_stream show ?thesis by simp
qed

text \<open>
  Claim C2 fails in the URL route. On a worker that ends well with the result
  \<open>{"success":true,"text":"hi","processing_time":2}\<close>, the supervisor of the URL route
  resolves with that result, yet the last frame of the stream is \<open>{"type":"complete"}\<close>
  alone: the result is dropped. The upload route, on the same worker, ends its stream
  with the \<open>complete\<close> frame that wraps the result. Both streams are closed.
\<close>

theorem complete_frame_without_result:
  "snd (runPythonScriptWithProgress_url json_parse True good_run) =
     Some (Inr (JObj [(''success'', JBool True), (''text'', JStr ''hi''), (''processing_time'', JNum 2)]))
   \<and> fst (POST_url good_machine (direct_request (Some ''text/event-stream'')) empty_world) =
     StreamResponse
       \<lparr>frames = [JObj [(''type'', JStr ''progress''), (''percentage'', JNum 50)],
                  JObj [(''type'', JStr ''complete'')]],
        closed = True\<rparr>
   \<and> fst (POST_local good_machine (upload (Some ''text/event-stream'')) empty_world) =
     StreamResponse
       \<lparr>frames = [JObj [(''type'', JStr ''progress''), (''percentage'', JNum 50)],
                  JObj [(''type'', JStr ''complete''),
                        (''result'', JObj [(''success'', JBool True), (''text'', JStr ''hi''),
                                           (''processing_time'', JNum 2)])]],
        closed = True\<rparr>"
proof -
  have p1: "json_parse ''{\"type\":\"progress\",\"percentage\":50}'' =
              Inr (JObj [(''type'', JStr ''progress''), (''percentage'', JNum 50)])"
    by (simp add: run_json_parse)
  have p2: "json_parse ''{\"success\":true,\"text\":\"hi\",\"processing_time\":2}'' =
              Inr (JObj [(''success'', JBool True), (''text'', JStr ''hi''),
                         (''processing_time'', JNum 2)])"
    by (simp add: run_json_parse)
  have r: "runPythonScriptWithProgress_url json_parse True good_run =
      ([JObj [(''type'', JStr ''progress''), (''percentage'', JNum 50)]],
       Some (Inr (JObj [(''success'', JBool True), (''text'', JStr ''hi''),
                        (''processing_time'', JNum 2)])))"
    by (simp add: good_run_def runPythonScriptWithProgress_url_def stderr_data_url_def
        progress_line_url_def js_includes_def indexOf_def PROGRESS_def match_braces_def
        startsWith_def nl_def p1 p2 settle_def report_def)
  have l: "client (runPythonScriptWithProgress_local json_parse (relay filePath) good_run (new_stream, w)) =
      (\<lparr>frames = [JObj [(''type'', JStr ''progress''), (''percentage'', JNum 50)],
                  JObj [(''type'', JStr ''complete''),
                        (''result'', JObj [(''success'', JBool True), (''text'', JStr ''hi''),
                                           (''processing_time'', JNum 2)])]],
        closed = True\<rparr>, cleanupFile filePath w)" for filePath w
    by (simp add: good_run_def runPythonScriptWithProgress_local_def stderr_data_local_def
        progress_line_local_def PROGRESS_def match_braces_def startsWith_def nl_def p1 p2
        on_close_local_def call_in_try_def throws_def call_def new_stream_def enqueue_def
        close_def)
  have m: "jsonParse good_machine = json_parse" "worker good_machine = good_run"
    "scriptExists good_machine" "writeError good_machine = None"
    "fetch good_machine = audio_site" "newURL good_machine = map_of known_urls"
    by (simp_all add: good_machine_def machine_def)
  have u: "fst (POST_url good_machine (direct_request (Some ''text/event-stream'')) empty_world) =
     StreamResponse
       \<lparr>frames = [JObj [(''type'', JStr ''progress''), (''percentage'', JNum 50)],
                  JObj [(''type'', JStr ''complete'')]],
        closed = True\<rparr>"
    by (simp add: Let_def POST_url_def direct_request_def isYouTubeURL_def m known_urls_def
        toLowerCase_def lower_char_def js_includes_def startsWith_def hasVideoPath_def
        wants_event_stream_def downloadAudioFromUrl_def audio_site_def
        handleStreamingTranscription_def r new_stream_def enqueue_def close_def)
  have v: "fst (POST_local good_machine (upload (Some ''text/event-stream'')) empty_world) =
     StreamResponse
       \<lparr>frames = [JObj [(''type'', JStr ''progress''), (''percentage'', JNum 50)],
                  JObj [(''type'', JStr ''complete''),
                        (''result'', JObj [(''success'', JBool True), (''text'', JStr ''hi''),
                                           (''processing_time'', JNum 2)])]],
        closed = True\<rparr>"
    by (simp add: Let_def POST_local_def upload_def m wants_event_stream_def js_includes_def startsWith_def
        handleProgressStreamRequest_def l)
  from r u v show ?thesis by simp
qed

subsection \<open>The artifact after the request\<close>

text \<open>
  When the worker was spawned and has exited, whatever its exit code and output, both
  streams and the plain answer of the upload route delete the artifact.
\<close>

lemma exited_worker_cleans_up:
  assumes "worker e = map Data outs @ [Close code]"
  shows "files (snd (handleProgressStreamRequest e filePath w)) filePath = None
     \<and> files (snd (handleStreamingTranscription e filePath w)) filePath = None
     \<and> (scriptExists e \<longrightarrow> files (snd (handleRegularRequest e filePath w)) filePath = None)"
proof -
  obtain ps where ps:
    "concat (map (stderr_data_local (jsonParse e)) (stderr_chunks outs)) = map OnProgress ps"
    using progress_calls_local by blast
  have a: "files (snd (handleProgressStreamRequest e filePath w)) filePath = None"
    by (simp add: handleProgressStreamRequest_def assms exited_run_local on_close_local_def ps
        foldl_relay_progress new_stream_def call_in_try_def throws_def call_def cleanupFile_def
        split: option.split sum.split)
  have b: "files (snd (handleStreamingTranscription e filePath w)) filePath = None"
    by (simp add: handleStreamingTranscription_def assms exited_run_url cleanupFile_def
        split: option.split sum.split)
  have c: "scriptExists e \<longrightarrow> files (snd (handleRegularRequest e filePath w)) filePath = None"
    by (simp add: handleRegularRequest_def assms exited_run_plain cleanupFile_def
        split: option.split sum.split)
  from a b c show ?thesis by blast
qed

text \<open>
  Claim C1 fails on three paths that return after the artifact was written. In the URL
  route, a plain (not streamed) request whose worker fails is answered by the outer
  \<open>catch\<close>, which does not delete the artifact; and a request on a machine where the
  worker's script is missing returns at once. In the upload route, a plain request on
  a machine where the script is missing returns at once as well. Each time the artifact
  \<open>/app/tmp/u1.mp3\<close> is still there after the response.
\<close>

theorem cleanup_skipped_after_failure:
  "POST_url failing_url_machine (direct_request None) empty_world =
     (JsonResponse 500
        (JObj [(''error'', JStr ''Server error processing URL''),
               (''message'', JStr (''Python script failed with code 1: PROGRESS:{\"percentage\":10}''
                                    @ [nl] @ ''Traceback'' @ [nl]))]),
      \<lparr>files = [''/app/tmp/u1.mp3'' \<mapsto> ''ID3''], spawned = [''/app/tmp/u1.mp3'']\<rparr>)
   \<and> POST_url (good_machine\<lparr>scriptExists := False\<rparr>) (direct_request (Some ''text/event-stream''))
       empty_world =
     (JsonResponse 500 (JObj [(''error'', JStr ''Server configuration error: Script not found'')]),
      \<lparr>files = [''/app/tmp/u1.mp3'' \<mapsto> ''ID3''], spawned = []\<rparr>)
   \<and> POST_local (good_machine\<lparr>scriptExists := False\<rparr>) (upload None) empty_world =
     (JsonResponse 500 (JObj [(''error'', JStr ''Server configuration error: Script not found'')]),
      \<lparr>files = [''/app/tmp/u1.mp3'' \<mapsto> ''ID3''], spawned = []\<rparr>)"
proof (intro conjI)
  show "POST_url failing_url_machine (direct_request None) empty_world =
     (JsonResponse 500
        (JObj [(''error'', JStr ''Server error processing URL''),
               (''message'', JStr (''Python script failed with code 1: PROGRESS:{\"percentage\":10}''
                                    @ [nl] @ ''Traceback'' @ [nl]))]),
      \<lparr>files = [''/app/tmp/u1.mp3'' \<mapsto> ''ID3''], spawned = [''/app/tmp/u1.mp3'']\<rparr>)"
    by (simp add: failing_url_machine_def machine_def known_urls_def failing_run_def audio_site_def
        direct_request_def empty_world_def run_POST_url startsWith_def)
next
  show "POST_url (good_machine\<lparr>scriptExists := False\<rparr>) (direct_request (Some ''text/event-stream''))
       empty_world =
     (JsonResponse 500 (JObj [(''error'', JStr ''Server configuration error: Script not found'')]),
      \<lparr>files = [''/app/tmp/u1.mp3'' \<mapsto> ''ID3''], spawned = []\<rparr>)"
    by (simp add: good_machine_def machine_def known_urls_def audio_site_def
        direct_request_def empty_world_def run_POST_url startsWith_def)
next
  show "POST_local (good_machine\<lparr>scriptExists := False\<rparr>) (upload None) empty_world =
     (JsonResponse 500 (JObj [(''error'', JStr ''Server configuration error: Script not found'')]),
      \<lparr>files = [''/app/tmp/u1.mp3'' \<mapsto> ''ID3''], spawned = []\<rparr>)"
    by (simp add: good_machine_def machine_def upload_def empty_world_def run_POST_local)
qed

subsection \<open>The home page of the video site\<close>

lemma isYouTubeURL_execAsync [simp]: "isYouTubeURL (e\<lparr>execAsync := x\<rparr>) u = isYouTubeURL e u"
  by (simp add: isYouTubeURL_def)

lemma handleStreamingTranscription_spawned:
  "spawned (snd (handleStreamingTranscription e filePath w)) = spawned w @ [filePath]"
  by (simp add: handleStreamingTranscription_def Let_def spawn_def cleanupFile_def
      split: prod.split option.split sum.split)

text \<open>
  Claim C5, as amended. Let the address submitted be one of the video site (its host
  name holds \<open>youtube.com\<close>) with no sign of a video: no \<open>/watch\<close>, \<open>/shorts/\<close> or
  \<open>/embed/\<close> in its path and no parameter \<open>v\<close>. Then \<open>isYouTubeURL\<close> answers false, the
  extraction tool is not run (the answer of the route does not depend on it) and the
  address is fetched as a direct one. When the fetch throws, or answers a status that is
  not ok, the route answers the plain error response of status 500, before any worker is
  spawned and with no file written. When the fetch answers ok and writing the file
  throws, the answer is again that plain error response, with no worker spawned. When
  the body was written as the artifact and the script of the worker is missing, the
  route answers \<open>Script not found\<close> with status 500, the artifact is left and no worker is
  spawned. Otherwise the body is written as the artifact and the worker is spawned on
  it: the route answers the stream of \<open>handleStreamingTranscription\<close> on that artifact
  when an event stream was asked for, and else the plain answer of the supervisor's
  outcome.
\<close>

theorem bare_youtube_url:
  assumes "audioUrl request = Inr (Some u)" and "u \<noteq> []"
    and "newURL e u = Some urlObj"
    and "js_includes (toLowerCase (hostname urlObj)) ''youtube.com''"
    and "\<not> hasVideoPath urlObj"
  shows "\<not> isYouTubeURL e u
     \<and> POST_url (e\<lparr>execAsync := tool\<rparr>) request w = POST_url e request w
     \<and> (\<forall>message. fetch e u = FetchError message \<longrightarrow>
           POST_url e request w = (server_error_url (download_failure message), w))
     \<and> (\<forall>status statusText body. fetch e u = FetchResponse False status statusText body \<longrightarrow>
           POST_url e request w =
             (server_error_url
                (download_failure (''Failed to fetch audio: '' @ show_nat status @ '' '' @ statusText)),
              w))
     \<and> (\<forall>status statusText body message.
           fetch e u = FetchResponse True status statusText body \<and> writeError e = Some message \<longrightarrow>
           POST_url e request w = (server_error_url (download_failure message), w))
     \<and> (\<forall>status statusText body.
           fetch e u = FetchResponse True status statusText body \<and> writeError e = None
             \<and> \<not> scriptExists e \<longrightarrow>
           POST_url e request w =
             (JsonResponse 500
                (JObj [(''error'', JStr ''Server configuration error: Script not found'')]),
              writeFileSync (artifact_path e) body w))
     \<and> (\<forall>status statusText body.
           fetch e u = FetchResponse True status statusText body \<and> writeError e = None
             \<and> scriptExists e \<and> wants_event_stream (accept request) \<longrightarrow>
           POST_url e request w =
             handleStreamingTranscription e (artifact_path e)
               (writeFileSync (artifact_path e) body w))
     \<and> (\<forall>status statusText body.
           fetch e u = FetchResponse True status statusText body \<and> writeError e = None
             \<and> scriptExists e \<and> \<not> wants_event_stream (accept request) \<longrightarrow>
           POST_url e request w =
             (case snd (runPythonScriptWithProgress_url (jsonParse e) False (worker e)) of
                None \<Rightarrow> (Pending, spawn (artifact_path e) (writeFileSync (artifact_path e) body w))
              | Some (Inr result) \<Rightarrow>
                  (JsonResponse 200 result,
                   cleanupFile (artifact_path e)
                     (spawn (artifact_path e) (writeFileSync (artifact_path e) body w)))
              | Some (Inl message) \<Rightarrow>
                  (server_error_url message,
                   spawn (artifact_path e) (writeFileSync (artifact_path e) body w))))
     \<and> (\<forall>status statusText body.
           fetch e u = FetchResponse True status statusText body \<and> writeError e = None
             \<and> scriptExists e \<longrightarrow>
           spawned (snd (POST_url e request w)) = spawned w @ [artifact_path e])"
proof -
  have no: "\<not> isYouTubeURL e u"
    using assms(3-5) by (simp add: isYouTubeURL_def Let_def)
  have post: "POST_url e request w =
      (case downloadAudioFromUrl e u (artifact_path e) w of
         Inl message \<Rightarrow> (server_error_url message, w)
       | Inr w1 \<Rightarrow>
           if \<not> scriptExists e then
             (JsonResponse 500
                (JObj [(''error'', JStr ''Server configuration error: Script not found'')]), w1)
           else if wants_event_stream (accept request)
           then handleStreamingTranscription e (artifact_path e) w1
           else
             (case snd (runPythonScriptWithProgress_url (jsonParse e) False (worker e)) of
                None \<Rightarrow> (Pending, spawn (artifact_path e) w1)
              | Some (Inr result) \<Rightarrow>
                  (JsonResponse 200 result, cleanupFile (artifact_path e) (spawn (artifact_path e) w1))
              | Some (Inl message) \<Rightarrow> (server_error_url message, spawn (artifact_path e) w1)))"
    using assms(1,2) no by (simp add: POST_url_def Let_def)
  have tool: "POST_url (e\<lparr>execAsync := tool\<rparr>) request w = POST_url e request w"
    using assms(1,2) no
    by (simp add: POST_url_def Let_def downloadAudioFromUrl_def artifact_path_def
        handleStreamingTranscription_def
        split: fetch_result.split option.split sum.split)
  have err: "POST_url e request w = (server_error_url (download_failure message), w)"
    if "fetch e u = FetchError message" for message
    using that by (simp add: post downloadAudioFromUrl_def)
  have bad: "POST_url e request w =
             (server_error_url
                (download_failure (''Failed to fetch audio: '' @ show_nat status @ '' '' @ statusText)),
              w)"
    if "fetch e u = FetchResponse False status statusText body" for status statusText body
    using that by (simp add: post downloadAudioFromUrl_def)
  have wr: "POST_url e request w = (server_error_url (download_failure message), w)"
    if "fetch e u = FetchResponse True status statusText body \<and> writeError e = Some message"
    for status statusText body message
    using that by (simp add: post downloadAudioFromUrl_def)
  have ns: "POST_url e request w =
             (JsonResponse 500
                (JObj [(''error'', JStr ''Server configuration error: Script not found'')]),
              writeFileSync (artifact_path e) body w)"
    if "fetch e u = FetchResponse True status statusText body \<and> writeError e = None
             \<and> \<not> scriptExists e" for status statusText body
    using that by (simp add: post downloadAudioFromUrl_def)
  have st: "POST_url e request w =
             handleStreamingTranscription e (artifact_path e)
               (writeFileSync (artifact_path e) body w)"
    if "fetch e u = FetchResponse True status statusText body \<and> writeError e = None
             \<and> scriptExists e \<and> wants_event_stream (accept request)" for status statusText body
    using that by (simp add: post downloadAudioFromUrl_def)
  have pl: "POST_url e request w =
             (case snd (runPythonScriptWithProgress_url (jsonParse e) False (worker e)) of
                None \<Rightarrow> (Pending, spawn (artifact_path e) (writeFileSync (artifact_path e) body w))
              | Some (Inr result) \<Rightarrow>
                  (JsonResponse 200 result,
                   cleanupFile (artifact_path e)
                     (spawn (artifact_path e) (writeFileSync (artifact_path e) body w)))
              | Some (Inl message) \<Rightarrow>
                  (server_error_url message,
                   spawn (artifact_path e) (writeFileSync (artifact_path e) body w)))"
    if "fetch e u = FetchResponse True status statusText body \<and> writeError e = None
             \<and> scriptExists e \<and> \<not> wants_event_stream (accept request)" for status statusText body
    using that by (simp add: post downloadAudioFromUrl_def)
  have ok: "spawned (snd (POST_url e request w)) = spawned w @ [artifact_path e]"
    if "fetch e u = FetchResponse True status statusText body \<and> writeError e = None
             \<and> scriptExists e" for status statusText body
    using that
    by (simp add: post downloadAudioFromUrl_def handleStreamingTranscription_spawned
        writeFileSync_def spawn_def cleanupFile_def split: option.split sum.split)
  from no tool err bad wr ns st pl ok show ?thesis by blast
qed

theorem bare_youtube_url_witness:
  "audioUrl home_request = Inr (Some youtube_home) \<and> youtube_home \<noteq> []
   \<and> js_includes (toLowerCase ''www.youtube.com'') ''youtube.com''
   \<and> \<not> hasVideoPath \<lparr>hostname = ''www.youtube.com'', pathname = ''/'', searchParams = []\<rparr>
   \<and> \<not> isYouTubeURL youtube_down_machine youtube_home
   \<and> POST_url youtube_down_machine home_request empty_world =
       (JsonResponse 500
          (JObj [(''error'', JStr ''Server error processing URL''),
                 (''message'',
                  JStr ''Failed to download audio from URL: Failed to fetch audio: 404 Not Found'')]),
        empty_world)"
proof -
  have h1: "audioUrl home_request = Inr (Some youtube_home)"
    by (simp add: home_request_def)
  have h2: "youtube_home \<noteq> []"
    by (simp add: youtube_home_def)
  have h3: "newURL youtube_down_machine youtube_home =
              Some \<lparr>hostname = ''www.youtube.com'', pathname = ''/'', searchParams = []\<rparr>"
    by (simp add: youtube_down_machine_def youtube_machine_def machine_def known_urls_def
        youtube_home_def)
  have h4: "js_includes (toLowerCase ''www.youtube.com'') ''youtube.com''"
    by (simp add: js_includes_def toLowerCase_def lower_char_def startsWith_def)
  have h5: "\<not> hasVideoPath \<lparr>hostname = ''www.youtube.com'', pathname = ''/'', searchParams = []\<rparr>"
    by (simp add: hasVideoPath_def js_includes_def startsWith_def)
  have f: "fetch youtube_down_machine youtube_home = FetchResponse False 404 ''Not Found'' []"
    by (simp add: youtube_down_machine_def)
  have n: "show_nat 404 = ''404''"
    by (simp add: show_nat.simps digit_char_def)
  from bare_youtube_url
    [of home_request youtube_home youtube_down_machine
        "\<lparr>hostname = ''www.youtube.com'', pathname = ''/'', searchParams = []\<rparr>"
        "execAsync youtube_down_machine" empty_world]
    h1 h2 h3 h4 h5 f
  have "\<not> isYouTubeURL youtube_down_machine youtube_home
     \<and> POST_url youtube_down_machine home_request empty_world =
         (server_error_url
            (download_failure (''Failed to fetch audio: '' @ show_nat 404 @ '' '' @ ''Not Found'')),
          empty_world)"
    by simp
  with h1 h2 h4 h5 show ?thesis
    by (simp add: n server_error_url_def download_failure_def)
qed

text \<open>
  The claim as it was written fails when the site answers its home page: the page is
  stored as the artifact, the worker is spawned on it, and the stream ends with a
  \<open>complete\<close> frame.
\<close>

theorem bare_youtube_url_counterexample:
  "newURL youtube_machine youtube_home =
     Some \<lparr>hostname = ''www.youtube.com'', pathname = ''/'', searchParams = []\<rparr>
   \<and> spawned (snd (POST_url youtube_machine home_request empty_world)) = [''/app/tmp/u1.mp3'']
   \<and> fst (POST_url youtube_machine home_request empty_world) =
       StreamResponse \<lparr>frames = [JObj [(''type'', JStr ''complete'')]], closed = True\<rparr>"
  by (simp add: youtube_machine_def machine_def known_urls_def home_request_def youtube_home_def
      empty_world_def
      POST_url_def isYouTubeURL_def hasVideoPath_def js_includes_def toLowerCase_def lower_char_def
      startsWith_def wants_event_stream_def downloadAudioFromUrl_def artifact_path_def
      handleStreamingTranscription_def runPythonScriptWithProgress_url_def quiet_run_def settle_def
      match_braces_def writeFileSync_def spawn_def cleanupFile_def new_stream_def enqueue_def
      close_def)

subsection \<open>Frames and reads\<close>

lemma logged_on_event_upload: "logged (on_event_upload eventData p) = logged p @ [eventData]"
  by (simp add: on_event_upload_def Let_def set_progress_def set_complete_def)

lemma on_data_line_upload:
  "on_line_upload parse p (data_line payload) =
     (case parse payload of Inr eventData \<Rightarrow> on_event_upload eventData p | Inl e \<Rightarrow> p)"
  by (simp add: on_line_upload_def data_line_def startsWith_def)

lemma empty_line_upload: "on_line_upload parse p [] = p"
  by (simp add: on_line_upload_def startsWith_def)

lemma on_data_line_url:
  "on_lines_url parse p (data_line payload # rest) =
     (case parse payload of
        Inr eventData \<Rightarrow>
          (let p1 = p\<lparr>logged := logged p @ [eventData]\<rparr>
           in if eventData = JNull then on_lines_url parse p1 rest
              else if field eventData ''type'' = Some (JStr ''progress'') then
                on_lines_url parse (set_progress eventData p1) rest
              else if field eventData ''type'' = Some (JStr ''complete'') then
                set_complete eventData p1
              else on_lines_url parse p1 rest)
      | Inl e \<Rightarrow> on_lines_url parse p rest)"
  by (simp add: data_line_def startsWith_def)

lemma empty_line_url_reader: "on_lines_url parse p ([] # rest) = on_lines_url parse p rest"
  by (simp add: startsWith_def)

lemma js_split_sse_frame:
  assumes "nl \<notin> set payload"
  shows "js_split nl (sse_frame payload @ rest) = data_line payload # [] # js_split nl rest"
proof -
  have free: "nl \<notin> set (data_line payload)"
    using assms by (simp add: data_line_def nl_def)
  have "sse_frame payload @ rest = data_line payload @ nl # (nl # rest)"
    by (simp add: sse_frame_def)
  also have "js_split nl \<dots> = js_split nl (data_line payload) @ js_split nl (nl # rest)"
    by (rule js_split_append)
  also have "js_split nl (data_line payload) = [data_line payload]"
    using free by (rule js_split_single)
  also have "js_split nl (nl # rest) = [] # js_split nl rest"
    by simp
  finally show ?thesis by simp
qed

lemma frames_text_Nil: "frames_text [] = []"
  by (simp add: frames_text_def)

lemma frames_text_Cons:
  "frames_text ((payload, eventData) # fs) = sse_frame payload @ frames_text fs"
  by (simp add: frames_text_def)

lemma logged_frames_upload:
  assumes "\<forall>(payload, eventData) \<in> set fs. nl \<notin> set payload \<and> parse payload = Inr eventData"
  shows "logged (foldl (on_line_upload parse) p (js_split nl (frames_text fs))) =
           logged p @ map snd fs"
  using assms
proof (induction fs arbitrary: p)
  case Nil
  show ?case by (simp add: frames_text_Nil empty_line_upload)
next
  case (Cons f fs)
  obtain payload eventData where f: "f = (payload, eventData)" by (cases f)
  with Cons.prems have ok: "nl \<notin> set payload" "parse payload = Inr eventData" by auto
  from Cons.prems have rest:
    "\<forall>(payload, eventData) \<in> set fs. nl \<notin> set payload \<and> parse payload = Inr eventData" by simp
  have lines: "js_split nl (frames_text (f # fs)) =
                 data_line payload # [] # js_split nl (frames_text fs)"
    by (simp add: f frames_text_Cons js_split_sse_frame [OF ok(1)])
  show ?case
    by (simp only: lines)
       (simp add: f on_data_line_upload ok(2) empty_line_upload Cons.IH [OF rest]
          logged_on_event_upload)
qed

lemma logged_frames_url:
  assumes "\<forall>(payload, eventData) \<in> set fs. nl \<notin> set payload \<and> parse payload = Inr eventData"
    and "\<forall>(payload, eventData) \<in> set (butlast fs). field eventData ''type'' \<noteq> Some (JStr ''complete'')"
  shows "logged (on_lines_url parse p (js_split nl (frames_text fs))) =
           logged p @ map snd fs"
  using assms
proof (induction fs arbitrary: p)
  case Nil
  show ?case by (simp add: frames_text_Nil startsWith_def)
next
  case (Cons f fs)
  obtain payload eventData where f: "f = (payload, eventData)" by (cases f)
  with Cons.prems have ok: "nl \<notin> set payload" "parse payload = Inr eventData" by auto
  from Cons.prems have rest:
    "\<forall>(payload, eventData) \<in> set fs. nl \<notin> set payload \<and> parse payload = Inr eventData" by simp
  have lines: "js_split nl (frames_text (f # fs)) =
                 data_line payload # [] # js_split nl (frames_text fs)"
    by (simp add: f frames_text_Cons js_split_sse_frame [OF ok(1)])
  show ?case
  proof (cases "fs = []")
    case True
    have "logged (on_lines_url parse p [data_line payload, [], []]) = logged p @ [eventData]"
      by (simp del: on_lines_url.simps
          add: on_lines_url.simps(1) on_data_line_url ok(2) Let_def empty_line_url_reader
            set_progress_def set_complete_def)
    with True lines show ?thesis by (simp add: f frames_text_Nil)
  next
    case False
    with Cons.prems(2) f have not_complete: "field eventData ''type'' \<noteq> Some (JStr ''complete'')"
      and rest2: "\<forall>(payload, eventData) \<in> set (butlast fs).
                    field eventData ''type'' \<noteq> Some (JStr ''complete'')"
      by auto
    show ?thesis
      by (simp only: lines)
         (simp del: on_lines_url.simps
            add: f on_data_line_url ok(2) Let_def not_complete empty_line_url_reader
              Cons.IH [OF rest rest2] set_progress_def)
  qed
qed


text \<open>A frame cut in two: inside its data line, or after it.\<close>

lemma startsWith_append_other:
  assumes "set t \<inter> set pre = {}"
  shows "startsWith (r @ t) pre = startsWith r pre"
proof (cases "length pre \<le> length r")
  case True
  then show ?thesis by (simp add: startsWith_def)
next
  case False
  then have short: "take (length pre) r = r" by simp
  have "take (length pre) r \<noteq> pre"
    using False short by auto
  moreover have "take (length pre) (r @ t) \<noteq> pre"
  proof
    assume eq: "take (length pre) (r @ t) = pre"
    then have pre: "pre = r @ take (length pre - length r) t" by (simp add: short)
    with False have "take (length pre - length r) t \<noteq> []"
      by (metis append_Nil2 order_refl)
    then obtain c where c: "c \<in> set (take (length pre - length r) t)"
      by (cases "take (length pre - length r) t") auto
    then have "c \<in> set t" by (rule in_set_takeD)
    moreover from c pre have "c \<in> set pre" by (metis Un_iff set_append)
    ultimately show False using assms by blast
  qed
  ultimately show ?thesis by (simp add: startsWith_def)
qed

lemma cut_in_data_line:
  assumes "sse_frame payload = a @ b" and "length a < length (data_line payload)"
  obtains r where "data_line payload = a @ r" and "b = r @ [nl, nl]"
proof -
  from assms(1) have "data_line payload @ [nl, nl] = a @ b" by (simp add: sse_frame_def)
  then obtain us where "data_line payload = a @ us \<and> us @ [nl, nl] = b
                        \<or> data_line payload @ us = a \<and> [nl, nl] = us @ b"
    unfolding append_eq_append_conv2 by blast
  with assms(2) have "data_line payload = a @ us \<and> b = us @ [nl, nl]" by auto
  with that show thesis by blast
qed

lemma cut_after_data_line:
  assumes "sse_frame payload = a @ b" and "length (data_line payload) \<le> length a"
  shows "a = data_line payload \<and> b = [nl, nl]
       \<or> a = data_line payload @ [nl] \<and> b = [nl]
       \<or> a = data_line payload @ [nl, nl] \<and> b = []"
proof -
  from assms(1) have "data_line payload @ [nl, nl] = a @ b" by (simp add: sse_frame_def)
  then obtain us where "data_line payload = a @ us \<and> us @ [nl, nl] = b
                        \<or> data_line payload @ us = a \<and> [nl, nl] = us @ b"
    unfolding append_eq_append_conv2 by blast
  with assms(2) have "data_line payload @ us = a \<and> [nl, nl] = us @ b" by auto
  then show ?thesis by (cases us) (auto simp: Cons_eq_append_conv)
qed

lemma js_split_newlines:
  "js_split nl [nl, nl] = [[], [], []]" "js_split nl [nl] = [[], []]" "js_split nl [] = [[]]"
  by simp_all

lemma js_split_data_line:
  assumes "nl \<notin> set l"
  shows "js_split nl l = [l]" "js_split nl (l @ [nl]) = [l, []]"
    "js_split nl (l @ [nl, nl]) = [l, [], []]"
proof -
  show a: "js_split nl l = [l]" using assms by (rule js_split_single)
  show "js_split nl (l @ [nl]) = [l, []]"
    using js_split_append [of nl l "[]"] a by simp
  show "js_split nl (l @ [nl, nl]) = [l, [], []]"
    using js_split_append [of nl l "[nl]"] a by simp
qed

lemma undecoded_line_upload:
  assumes "startsWith l ''data: '' \<longrightarrow> isl (parse (drop 6 l))"
  shows "on_line_upload parse p l = p"
  using assms by (cases "parse (drop 6 l)") (simp_all add: on_line_upload_def)

lemma undecoded_line_url:
  assumes "startsWith l ''data: '' \<longrightarrow> isl (parse (drop 6 l))"
  shows "on_lines_url parse p (l # rest) = on_lines_url parse p rest"
  using assms by (cases "parse (drop 6 l)") simp_all

lemma logged_on_data_line_url:
  assumes "parse payload = Inr eventData" and "set rest \<subseteq> {[]}"
  shows "logged (on_lines_url parse p (data_line payload # rest)) = logged p @ [eventData]"
proof -
  have e: "on_lines_url parse q rest = q" for q
    using assms(2) by (induction rest) (simp_all add: empty_line_url_reader del: on_lines_url.simps(2))
  show ?thesis
    by (simp del: on_lines_url.simps add: on_data_line_url assms(1) Let_def e
        set_progress_def set_complete_def)
qed

lemma empty_lines_upload:
  assumes "set ls \<subseteq> {[]}"
  shows "foldl (on_line_upload parse) p ls = p"
  using assms by (induction ls) (simp_all add: empty_line_upload)

lemma empty_lines_url:
  assumes "set ls \<subseteq> {[]}"
  shows "on_lines_url parse p ls = p"
  using assms by (induction ls) (simp_all add: empty_line_url_reader del: on_lines_url.simps(2))

text \<open>
  Claim C9, as amended. Let every chunk read hold whole frames only, each payload
  being free of line feeds and the JSON text of an event. Then the reader of an upload
  dispatches every frame once, in order, however many frames a chunk holds; and so does
  \<open>processStreamingResponse\<close>, as long as a \<open>complete\<close> frame is the last one of its chunk.
  Neither reader keeps anything of a chunk for the next read. When a frame arrives in
  two reads that cut it inside its data line, and neither part is by itself a data line
  whose text parses, no event is dispatched and both readers leave the page as it was.
  When the two reads cut it after its data line, among the line feeds, the frame is
  dispatched once.
\<close>

theorem whole_frames_dispatched_once:
  assumes "\<forall>fs \<in> set chunks. \<forall>(payload, eventData) \<in> set fs.
             nl \<notin> set payload \<and> parse payload = Inr eventData"
  shows "logged (read_upload_stream parse (map frames_text chunks) p) =
           logged p @ map snd (concat chunks)
     \<and> ((\<forall>fs \<in> set chunks. \<forall>(payload, eventData) \<in> set (butlast fs).
            field eventData ''type'' \<noteq> Some (JStr ''complete''))
        \<longrightarrow> logged (processStreamingResponse parse
                       (map frames_text chunks) p) =
              logged p @ map snd (concat chunks))
     \<and> (\<forall>payload a b.
           sse_frame payload = a @ b \<and> nl \<notin> set payload
             \<and> length a < length (data_line payload)
             \<and> (startsWith a ''data: '' \<longrightarrow> isl (parse (drop 6 a)))
             \<and> (startsWith b ''data: '' \<longrightarrow> isl (parse (drop 6 (take (length b - 2) b))))
           \<longrightarrow> read_upload_stream parse [a, b] p = p
               \<and> processStreamingResponse parse [a, b] p = p)
     \<and> (\<forall>payload eventData a b.
           sse_frame payload = a @ b \<and> nl \<notin> set payload
             \<and> length (data_line payload) \<le> length a \<and> parse payload = Inr eventData
           \<longrightarrow> logged (read_upload_stream parse [a, b] p) = logged p @ [eventData]
               \<and> logged (processStreamingResponse parse [a, b] p) = logged p @ [eventData])"
proof (intro conjI impI allI)
  show "logged (read_upload_stream parse (map frames_text chunks) p) =
           logged p @ map snd (concat chunks)"
    using assms
  proof (induction chunks arbitrary: p)
    case Nil
    show ?case by (simp add: read_upload_stream_def)
  next
    case (Cons fs chunks)
    from Cons.prems have here:
      "\<forall>(payload, eventData) \<in> set fs. nl \<notin> set payload \<and> parse payload = Inr eventData"
      by simp
    from Cons.prems have later: "\<forall>fs \<in> set chunks. \<forall>(payload, eventData) \<in> set fs.
             nl \<notin> set payload \<and> parse payload = Inr eventData"
      by simp
    from Cons.IH [OF later] show ?case
      by (simp add: read_upload_stream_def on_chunk_upload_def logged_frames_upload [OF here])
  qed
next
  assume "\<forall>fs \<in> set chunks. \<forall>(payload, eventData) \<in> set (butlast fs).
            field eventData ''type'' \<noteq> Some (JStr ''complete'')"
  with assms show "logged (processStreamingResponse parse
                       (map frames_text chunks) p) =
              logged p @ map snd (concat chunks)"
  proof (induction chunks arbitrary: p)
    case Nil
    show ?case by (simp add: processStreamingResponse_def)
  next
    case (Cons fs chunks)
    from Cons.prems have here:
      "\<forall>(payload, eventData) \<in> set fs. nl \<notin> set payload \<and> parse payload = Inr eventData"
      "\<forall>(payload, eventData) \<in> set (butlast fs). field eventData ''type'' \<noteq> Some (JStr ''complete'')"
      by simp_all
    from Cons.prems have later: "\<forall>fs \<in> set chunks. \<forall>(payload, eventData) \<in> set fs.
             nl \<notin> set payload \<and> parse payload = Inr eventData"
      "\<forall>fs \<in> set chunks. \<forall>(payload, eventData) \<in> set (butlast fs).
            field eventData ''type'' \<noteq> Some (JStr ''complete'')"
      by simp_all
    from Cons.IH [OF later] show ?case
      by (simp add: processStreamingResponse_def logged_frames_url [OF here])
  qed
next
  fix payload a b
  assume h: "sse_frame payload = a @ b \<and> nl \<notin> set payload
             \<and> length a < length (data_line payload)
             \<and> (startsWith a ''data: '' \<longrightarrow> isl (parse (drop 6 a)))
             \<and> (startsWith b ''data: '' \<longrightarrow> isl (parse (drop 6 (take (length b - 2) b))))"
  then obtain r where r: "data_line payload = a @ r" "b = r @ [nl, nl]"
    using cut_in_data_line [of payload a b] by blast
  from h have "nl \<notin> set (data_line payload)" by (simp add: data_line_def nl_def)
  with r have free: "nl \<notin> set a" "nl \<notin> set r" by auto
  have sw: "startsWith b ''data: '' = startsWith r ''data: ''"
    unfolding r(2) by (rule startsWith_append_other) (simp add: nl_def)
  from h have fa: "startsWith a ''data: '' \<longrightarrow> isl (parse (drop 6 a))" by blast
  from h sw have fr: "startsWith r ''data: '' \<longrightarrow> isl (parse (drop 6 r))"
    by (simp add: r(2))
  have ua: "on_line_upload parse q a = q" for q
    using fa by (rule undecoded_line_upload)
  have ur: "on_line_upload parse q r = q" for q
    using fr by (rule undecoded_line_upload)
  have va: "on_lines_url parse q (a # rest) = on_lines_url parse q rest" for q rest
    using fa by (rule undecoded_line_url)
  have vr: "on_lines_url parse q (r # rest) = on_lines_url parse q rest" for q rest
    using fr by (rule undecoded_line_url)
  show "read_upload_stream parse [a, b] p = p"
    by (simp add: read_upload_stream_def on_chunk_upload_def r(2) js_split_data_line free
        ua ur empty_line_upload)
  show "processStreamingResponse parse [a, b] p = p"
    by (simp del: on_lines_url.simps
        add: processStreamingResponse_def r(2) js_split_data_line free on_lines_url.simps(1)
          va vr empty_line_url_reader)
next
  fix payload eventData a b
  assume h: "sse_frame payload = a @ b \<and> nl \<notin> set payload
             \<and> length (data_line payload) \<le> length a \<and> parse payload = Inr eventData"
  then have cut: "a = data_line payload \<and> b = [nl, nl]
       \<or> a = data_line payload @ [nl] \<and> b = [nl]
       \<or> a = data_line payload @ [nl, nl] \<and> b = []"
    using cut_after_data_line [of payload a b] by blast
  from h have free: "nl \<notin> set (data_line payload)" by (simp add: data_line_def nl_def)
  from h have ok: "parse payload = Inr eventData" by blast
  show "logged (read_upload_stream parse [a, b] p) = logged p @ [eventData]"
    using cut
    by (auto simp: read_upload_stream_def on_chunk_upload_def js_split_data_line [OF free]
        on_data_line_upload ok empty_line_upload logged_on_event_upload
        simp del: js_split.simps)
       (simp_all add: empty_line_upload logged_on_event_upload)
  have dl: "logged (on_lines_url parse q (data_line payload # rest)) = logged q @ [eventData]"
    if "set rest \<subseteq> {[]}" for q rest
    using ok that by (rule logged_on_data_line_url)
  show "logged (processStreamingResponse parse [a, b] p) = logged p @ [eventData]"
    using cut
    by (auto simp: processStreamingResponse_def js_split_data_line [OF free]
        dl empty_lines_url js_split_newlines
        simp del: js_split.simps on_lines_url.simps)
qed


theorem whole_frames_dispatched_once_witness:
  "json_parse progress_text = Inr progress_event
   \<and> json_parse complete_text = Inr complete_event
   \<and> logged (read_upload_stream json_parse
         [frames_text [(progress_text, progress_event)],
          frames_text [(progress_text, progress_event), (complete_text, complete_event)]]
         starting) =
       [progress_event, progress_event, complete_event]
   \<and> logged (processStreamingResponse json_parse
         [frames_text [(progress_text, progress_event)],
          frames_text [(progress_text, progress_event), (complete_text, complete_event)]]
         starting) =
       [progress_event, progress_event, complete_event]
   \<and> sse_frame progress_text = ''data: '' @ (progress_text @ [nl, nl])
   \<and> read_upload_stream json_parse [''data: '', progress_text @ [nl, nl]] starting = starting
   \<and> processStreamingResponse json_parse [''data: '', progress_text @ [nl, nl]] starting = starting
   \<and> sse_frame progress_text = (data_line progress_text @ [nl]) @ [nl]
   \<and> logged (read_upload_stream json_parse [data_line progress_text @ [nl], [nl]] starting) =
       [progress_event]
   \<and> logged (processStreamingResponse json_parse [data_line progress_text @ [nl], [nl]] starting) =
       [progress_event]"
proof -
  have h1: "json_parse progress_text = Inr progress_event"
    by (simp add: progress_text_def progress_event_def run_json_parse)
  have h2: "json_parse complete_text = Inr complete_event"
    by (simp add: complete_text_def complete_event_def run_json_parse)
  have h3: "nl \<notin> set progress_text" "nl \<notin> set complete_text"
    by (simp_all add: progress_text_def complete_text_def nl_def)
  have h4: "field progress_event ''type'' \<noteq> Some (JStr ''complete'')"
    by (simp add: progress_event_def)
  have h5: "logged starting = []"
    by (simp add: starting_def)
  have c1: "sse_frame progress_text = ''data: '' @ (progress_text @ [nl, nl])"
    by (simp add: sse_frame_def data_line_def)
  have c2: "length ''data: '' < length (data_line progress_text)"
    by (simp add: data_line_def progress_text_def)
  have c3: "isl (json_parse (drop 6 ''data: ''))"
    by (simp add: run_json_parse)
  have c4: "\<not> startsWith (progress_text @ [nl, nl]) ''data: ''"
    by (simp add: progress_text_def startsWith_def)
  have d1: "sse_frame progress_text = (data_line progress_text @ [nl]) @ [nl]"
    by (simp add: sse_frame_def)
  have d2: "length (data_line progress_text) \<le> length (data_line progress_text @ [nl])"
    by simp
  note t = whole_frames_dispatched_once
    [of "[[(progress_text, progress_event)],
          [(progress_text, progress_event), (complete_text, complete_event)]]"
        json_parse starting]
  have hyp: "\<forall>fs \<in> set [[(progress_text, progress_event)],
                          [(progress_text, progress_event), (complete_text, complete_event)]].
             \<forall>(payload, eventData) \<in> set fs.
               nl \<notin> set payload \<and> json_parse payload = Inr eventData"
    using h1 h2 h3 by simp
  from t [OF hyp] h4 h5
  have whole: "logged (read_upload_stream json_parse
         [frames_text [(progress_text, progress_event)],
          frames_text [(progress_text, progress_event), (complete_text, complete_event)]]
         starting) =
       [progress_event, progress_event, complete_event]
   \<and> logged (processStreamingResponse json_parse
         [frames_text [(progress_text, progress_event)],
          frames_text [(progress_text, progress_event), (complete_text, complete_event)]]
         starting) =
       [progress_event, progress_event, complete_event]"
    by simp
  from t [OF hyp] c1 c2 c3 c4 h3(1)
  have cut: "read_upload_stream json_parse [''data: '', progress_text @ [nl, nl]] starting = starting
   \<and> processStreamingResponse json_parse [''data: '', progress_text @ [nl, nl]] starting = starting"
    by blast
  from t [OF hyp] d1 d2 h1 h3(1)
  have "logged (read_upload_stream json_parse [data_line progress_text @ [nl], [nl]] starting) =
          logged starting @ [progress_event]
   \<and> logged (processStreamingResponse json_parse [data_line progress_text @ [nl], [nl]] starting) =
          logged starting @ [progress_event]"
    by blast
  then have after: "logged (read_upload_stream json_parse [data_line progress_text @ [nl], [nl]] starting) =
       [progress_event]
   \<and> logged (processStreamingResponse json_parse [data_line progress_text @ [nl], [nl]] starting) =
       [progress_event]"
    by (simp add: h5)
  from h1 h2 whole c1 cut d1 after show ?thesis by blast
qed

text \<open>
  The claim as it was written fails for a frame that arrives in two reads: the frame is
  dispatched once when it arrives whole, and not at all when it is cut after
  \<open>data: {"type":"pro\<close>; both readers leave the page as it was.
\<close>

theorem whole_frames_dispatched_once_counterexample:
  "first_half @ second_half = sse_frame progress_text
   \<and> logged (read_upload_stream json_parse [sse_frame progress_text] starting) = [progress_event]
   \<and> read_upload_stream json_parse [first_half, second_half] starting = starting
   \<and> processStreamingResponse json_parse [first_half, second_half] starting = starting"
proof -
  have p1: "json_parse ''{\"type\":\"progress\",\"percentage\":50}'' = Inr progress_event"
    by (simp add: progress_event_def run_json_parse)
  have p2: "json_parse ''{\"type\":\"pro'' = Inl ''Unexpected token or end of JSON input''"
    by (simp add: run_json_parse)
  have a: "first_half @ second_half = sse_frame progress_text"
    by (simp add: first_half_def second_half_def sse_frame_def data_line_def progress_text_def)
  have b: "logged (read_upload_stream json_parse [sse_frame progress_text] starting) = [progress_event]"
    by (simp add: read_upload_stream_def on_chunk_upload_def sse_frame_def data_line_def
        progress_text_def nl_def on_line_upload_def startsWith_def p1 logged_on_event_upload
        starting_def)
  have c: "read_upload_stream json_parse [first_half, second_half] starting = starting"
    by (simp add: read_upload_stream_def on_chunk_upload_def first_half_def second_half_def
        nl_def on_line_upload_def startsWith_def p2)
  have d: "processStreamingResponse json_parse [first_half, second_half] starting = starting"
    by (simp add: processStreamingResponse_def first_half_def second_half_def
        nl_def startsWith_def p2)
  from a b c d show ?thesis by simp
qed

end
